theory Spec2Isabelle
  imports Main "HOL-Library.Sublist"
begin

section \<open>Data model (the Mongoose schemas of the server)\<close>

text \<open>
  An ObjectId is an opaque identifier; a Date is a number of milliseconds. The two
  collections of the database are lists of documents, in insertion order.
\<close>

type_synonym oid = nat

datatype status = Building | Deploying | Live | Error

record user =
  user_id :: oid
  email :: string
  password :: string
  plan :: string

record deployment =
  dep_id :: oid
  userId :: oid
  projectName :: string
  domain :: string
  repositoryUrl :: "string option"
  branch :: string
  buildCommand :: "string option"
  outputDir :: string
  status :: status
  renderServiceId :: "string option"
  deploymentUrl :: "string option"
  sslEnabled :: bool
  createdAt :: int
  visitors :: nat
  bandwidth :: nat

record db =
  users :: "user list"
  deployments :: "deployment list"

text \<open>
  Everything a \<open>try\<close> block of the server can catch. A database call throws \<open>DbError\<close>
  when the environment says so (the connection is down, the query times out); the other
  database errors follow from the schema: \<open>required: true\<close>, \<open>unique: true\<close>, a
  \<open>save()\<close> of a document that is no longer stored, and a query whose \<open>_id\<close> is not an
  ObjectId. \<open>TypeError\<close> is what \<open>path.join\<close> throws, \<open>FsError\<close> what the file system does.
\<close>

datatype exn = DbError | ValidationError | DuplicateKey | DocumentNotFound | CastError
  | TypeError | FsError

text \<open>
  The id of a request (\<open>req.params.id\<close>) is any string. A query casts it to an ObjectId:
  a string of 24 hexadecimal digits is the ObjectId with that value, any other string is
  refused with a \<open>CastError\<close> before the database is asked.
\<close>

definition hex_value :: "char \<Rightarrow> nat option" where
  "hex_value c =
     (let n = (of_char c :: nat)
      in if 48 \<le> n \<and> n \<le> 57 then Some (n - 48)
         else if 97 \<le> n \<and> n \<le> 102 then Some (n - 87)
         else if 65 \<le> n \<and> n \<le> 70 then Some (n - 55)
         else None)"

fun hex_number :: "nat \<Rightarrow> string \<Rightarrow> nat option" where
  "hex_number acc [] = Some acc"
| "hex_number acc (c # cs) =
     (case hex_value c of None \<Rightarrow> None | Some v \<Rightarrow> hex_number (16 * acc + v) cs)"

definition castObjectId :: "string \<Rightarrow> oid option" where
  "castObjectId s = (if length s = 24 then hex_number 0 s else None)"

text \<open>
  \<open>path.join\<close> checks that every argument is a string and throws a \<open>TypeError\<close> at one
  that is not. The server calls it with \<open>req.deploymentId\<close>, which is \<open>undefined\<close> until the
  handler has set it, and with \<open>deployment._id\<close>, which is an ObjectId. The joined path is
  kept as the list of its segments; nothing here reads it.
\<close>

datatype path_arg = PathString string | PathObjectId oid | PathUndefined

fun path_join :: "path_arg list \<Rightarrow> exn + string list" where
  "path_join [] = Inr []"
| "path_join (PathString s # rest) =
     (case path_join rest of Inl ex \<Rightarrow> Inl ex | Inr segs \<Rightarrow> Inr (s # segs))"
| "path_join (a # rest) = Inl TypeError"

text \<open>\<open>path.join(__dirname, 'uploads', a)\<close>\<close>

definition uploads_dir :: "path_arg \<Rightarrow> exn + string list" where
  "uploads_dir a = path_join [PathString ''__dirname'', PathString ''uploads'', a]"

text \<open>
  The \<open>destination\<close> callback of the multer storage, which runs for an uploaded file before
  the handler of \<open>POST /api/deploy\<close> does.
\<close>

definition multer_destination :: "path_arg \<Rightarrow> exn + string list" where
  "multer_destination reqDeploymentId = uploads_dir reqDeploymentId"

subsection \<open>HTTP responses\<close>

record user_view =
  view_id :: oid
  view_email :: string
  view_plan :: string

datatype body =
    ErrorBody string
  | AuthBody string string user_view
  | DeployBody string oid string string
  | DeploymentsBody "deployment list"
  | DeploymentBody deployment
  | MessageBody string
  | AnalyticsBody nat nat nat nat

record response =
  code :: nat
  body :: body

definition respond :: "nat \<Rightarrow> body \<Rightarrow> response" where
  "respond c b = \<lparr>code = c, body = b\<rparr>"

section \<open>The database calls\<close>

text \<open>
  Each call takes the environment's verdict \<open>fault\<close> (the call throws) and the store.
\<close>

definition Deployment_findOne_domain :: "bool \<Rightarrow> db \<Rightarrow> string \<Rightarrow> exn + deployment option" where
  "Deployment_findOne_domain fault d dn =
     (if fault then Inl DbError
      else Inr (find (\<lambda>x. domain x = dn) (deployments d)))"

text \<open>\<open>Deployment.findOne({ _id: req.params.id, userId: req.user.userId })\<close>\<close>

definition Deployment_findOne_owned :: "bool \<Rightarrow> db \<Rightarrow> string \<Rightarrow> oid \<Rightarrow> exn + deployment option" where
  "Deployment_findOne_owned fault d rid u =
     (case castObjectId rid of
        None \<Rightarrow> Inl CastError
      | Some i \<Rightarrow>
         (if fault then Inl DbError
          else Inr (find (\<lambda>x. dep_id x = i \<and> userId x = u) (deployments d))))"

text \<open>\<open>Deployment.find({ userId }).sort({ createdAt: -1 }).limit(10)\<close>\<close>

definition Deployment_find_recent :: "bool \<Rightarrow> db \<Rightarrow> oid \<Rightarrow> exn + deployment list" where
  "Deployment_find_recent fault d u =
     (if fault then Inl DbError
      else Inr (take 10 (sort_key (\<lambda>x. - createdAt x)
                  (filter (\<lambda>x. userId x = u) (deployments d)))))"

definition Deployment_findByIdAndDelete :: "bool \<Rightarrow> db \<Rightarrow> string \<Rightarrow> exn + db" where
  "Deployment_findByIdAndDelete fault d rid =
     (case castObjectId rid of
        None \<Rightarrow> Inl CastError
      | Some i \<Rightarrow>
         (if fault then Inl DbError
          else Inr (d\<lparr>deployments := filter (\<lambda>x. dep_id x \<noteq> i) (deployments d)\<rparr>)))"

text \<open>
  \<open>save()\<close> of a new document: the schema requires \<open>projectName\<close> and \<open>domain\<close>, and
  the unique indexes on \<open>_id\<close> and \<open>domain\<close> refuse a duplicate.
\<close>

definition Deployment_insert :: "bool \<Rightarrow> deployment \<Rightarrow> db \<Rightarrow> exn + db" where
  "Deployment_insert fault x d =
     (if projectName x = [] \<or> domain x = [] then Inl ValidationError
      else if fault then Inl DbError
      else if \<exists>y \<in> set (deployments d). dep_id y = dep_id x \<or> domain y = domain x
        then Inl DuplicateKey
      else Inr (d\<lparr>deployments := deployments d @ [x]\<rparr>))"

text \<open>
  \<open>save()\<close> of a document that was loaded or saved before: the stored document with
  its \<open>_id\<close> takes the fields of the document in memory.
\<close>

definition Deployment_save :: "bool \<Rightarrow> deployment \<Rightarrow> db \<Rightarrow> exn + db" where
  "Deployment_save fault x d =
     (if fault then Inl DbError
      else if \<forall>y \<in> set (deployments d). dep_id y \<noteq> dep_id x then Inl DocumentNotFound
      else if \<exists>y \<in> set (deployments d). dep_id y \<noteq> dep_id x \<and> domain y = domain x
        then Inl DuplicateKey
      else Inr (d\<lparr>deployments :=
                  map (\<lambda>y. if dep_id y = dep_id x then x else y) (deployments d)\<rparr>))"

definition User_findOne :: "bool \<Rightarrow> db \<Rightarrow> string \<Rightarrow> exn + user option" where
  "User_findOne fault d e =
     (if fault then Inl DbError
      else Inr (find (\<lambda>x. email x = e) (users d)))"

definition User_insert :: "bool \<Rightarrow> user \<Rightarrow> db \<Rightarrow> exn + db" where
  "User_insert fault x d =
     (if email x = [] \<or> password x = [] then Inl ValidationError
      else if fault then Inl DbError
      else if \<exists>y \<in> set (users d). user_id y = user_id x \<or> email y = email x
        then Inl DuplicateKey
      else Inr (d\<lparr>users := users d @ [x]\<rparr>))"

text \<open>The status the store holds for a deployment id.\<close>

definition stored_status :: "db \<Rightarrow> oid \<Rightarrow> status option" where
  "stored_status d i = map_option status (find (\<lambda>x. dep_id x = i) (deployments d))"

section \<open>Reading and deleting deployments\<close>

text \<open>\<open>app.get('/api/deployments')\<close>, for the authenticated caller \<open>u\<close>.\<close>

definition get_deployments :: "bool \<Rightarrow> db \<Rightarrow> oid \<Rightarrow> response" where
  "get_deployments findFault d u =
     (case Deployment_find_recent findFault d u of
        Inr ds \<Rightarrow> respond 200 (DeploymentsBody ds)
      | Inl e \<Rightarrow> respond 500 (ErrorBody ''Internal server error''))"

text \<open>\<open>app.get('/api/deployments/:id')\<close>\<close>

definition get_deployment :: "bool \<Rightarrow> db \<Rightarrow> oid \<Rightarrow> string \<Rightarrow> response" where
  "get_deployment findFault d u rid =
     (case Deployment_findOne_owned findFault d rid u of
        Inr None \<Rightarrow> respond 404 (ErrorBody ''Deployment not found'')
      | Inr (Some x) \<Rightarrow> respond 200 (DeploymentBody x)
      | Inl e \<Rightarrow> respond 500 (ErrorBody ''Internal server error''))"

text \<open>
  \<open>app.delete('/api/deployments/:id')\<close>: the lookup, the path of the upload directory
  (\<open>path.join(__dirname, 'uploads', deployment._id)\<close>), its removal (it throws when
  \<open>rmdirFault\<close>), then the deletion by id.
\<close>

definition delete_deployment :: "bool \<Rightarrow> bool \<Rightarrow> bool \<Rightarrow> db \<Rightarrow> oid \<Rightarrow> string \<Rightarrow> response \<times> db" where
  "delete_deployment findFault rmdirFault deleteFault d u rid =
     (case Deployment_findOne_owned findFault d rid u of
        Inr None \<Rightarrow> (respond 404 (ErrorBody ''Deployment not found''), d)
      | Inr (Some x) \<Rightarrow>
          (case uploads_dir (PathObjectId (dep_id x)) of
             Inl ex \<Rightarrow> (respond 500 (ErrorBody ''Internal server error''), d)
           | Inr uploadDir \<Rightarrow>
              (if rmdirFault then (respond 500 (ErrorBody ''Internal server error''), d)
               else (case Deployment_findByIdAndDelete deleteFault d rid of
                       Inr d' \<Rightarrow>
                         (respond 200 (MessageBody ''Deployment deleted successfully''), d')
                     | Inl ex \<Rightarrow> (respond 500 (ErrorBody ''Internal server error''), d))))
      | Inl ex \<Rightarrow> (respond 500 (ErrorBody ''Internal server error''), d))"

text \<open>
  \<open>app.get('/api/analytics/:deploymentId')\<close>: the four numbers \<open>r1 .. r4\<close> are the
  values of \<open>Math.floor(Math.random() * n)\<close>; the two floating-point fields of the
  answer are left out.
\<close>

definition get_analytics :: "bool \<Rightarrow> db \<Rightarrow> oid \<Rightarrow> string \<Rightarrow> nat \<Rightarrow> nat \<Rightarrow> nat \<Rightarrow> nat \<Rightarrow> response" where
  "get_analytics findFault d u rid r1 r2 r3 r4 =
     (case Deployment_findOne_owned findFault d rid u of
        Inr None \<Rightarrow> respond 404 (ErrorBody ''Deployment not found'')
      | Inr (Some x) \<Rightarrow> respond 200 (AnalyticsBody (visitors x + r1) (bandwidth x + r2) r3 r4)
      | Inl e \<Rightarrow> respond 500 (ErrorBody ''Internal server error''))"

section \<open>Authentication routes\<close>

text \<open>
  \<open>app.post('/api/auth/register')\<close>. The environment gives the new document's \<open>_id\<close>, the
  result of \<open>bcrypt.hash(password, 10)\<close> (salted, so not a function of the password) and
  \<open>jwt.sign\<close>. A missing field of the request body is the empty string.
\<close>

definition register ::
  "bool \<Rightarrow> bool \<Rightarrow> oid \<Rightarrow> string \<Rightarrow> (oid \<Rightarrow> string) \<Rightarrow> db \<Rightarrow> string \<Rightarrow> string \<Rightarrow> response \<times> db" where
  "register findFault saveFault newId hashedPassword jwt_sign d e p =
     (if e = [] \<or> p = [] then (respond 400 (ErrorBody ''Email and password required''), d)
      else case User_findOne findFault d e of
          Inl ex \<Rightarrow> (respond 500 (ErrorBody ''Internal server error''), d)
        | Inr (Some existingUser) \<Rightarrow> (respond 400 (ErrorBody ''User already exists''), d)
        | Inr None \<Rightarrow>
           (let usr = \<lparr>user_id = newId, email = e, password = hashedPassword, plan = ''free''\<rparr>
            in case User_insert saveFault usr d of
                 Inl ex \<Rightarrow> (respond 500 (ErrorBody ''Internal server error''), d)
               | Inr d' \<Rightarrow>
                  (respond 201 (AuthBody ''User created successfully'' (jwt_sign (user_id usr))
                     \<lparr>view_id = user_id usr, view_email = email usr, view_plan = plan usr\<rparr>), d')))"

text \<open>\<open>app.post('/api/auth/login')\<close>, with \<open>bcrypt.compare\<close> given by the environment.\<close>

definition login ::
  "bool \<Rightarrow> (string \<Rightarrow> string \<Rightarrow> bool) \<Rightarrow> (oid \<Rightarrow> string) \<Rightarrow> db \<Rightarrow> string \<Rightarrow> string \<Rightarrow> response" where
  "login findFault bcrypt_compare jwt_sign d e p =
     (case User_findOne findFault d e of
        Inl ex \<Rightarrow> respond 500 (ErrorBody ''Internal server error'')
      | Inr None \<Rightarrow> respond 401 (ErrorBody ''Invalid credentials'')
      | Inr (Some usr) \<Rightarrow>
         (if \<not> bcrypt_compare p (password usr) then respond 401 (ErrorBody ''Invalid credentials'')
          else respond 200 (AuthBody ''Login successful'' (jwt_sign (user_id usr))
                 \<lparr>view_id = user_id usr, view_email = email usr, view_plan = plan usr\<rparr>)))"

section \<open>The deployment process\<close>

text \<open>What the hosting provider answers: a service with an id, a status and a URL.\<close>

record service =
  svc_id :: string
  svc_status :: string
  svc_url :: string

text \<open>
  One poll of the provider, as the environment decides it: \<open>reply = None\<close> when
  \<open>getServiceStatus\<close> throws, and whether the \<open>save()\<close> of that poll throws.
\<close>

record poll =
  reply :: "service option"
  saveFault :: bool

text \<open>
  The environment of one run of \<open>processDeployment\<close>, in the order of its awaited calls
  (\<open>extractFault\<close>: \<open>extractZip\<close> throws).
\<close>

record proc_env =
  save1Fault :: bool
  extractFault :: bool
  createReply :: "service option"
  save2Fault :: bool
  domainFault :: bool
  catchSaveFault :: bool
  polls :: "nat \<Rightarrow> poll"

definition maxAttempts :: nat where
  "maxAttempts = 30"

text \<open>
  The body of \<open>checkStatus\<close>, run once with the counter at \<open>attempts\<close>, on the document in
  memory \<open>x\<close> and the store \<open>d\<close>. The first component of the result says whether the body
  ended in \<open>attempts++; setTimeout(checkStatus, 5000)\<close>. A \<open>save()\<close> that throws leaves
  the assignment to the document in memory in place and goes to the \<open>catch\<close>.
\<close>

definition checkStatus_body :: "poll \<Rightarrow> nat \<Rightarrow> deployment \<Rightarrow> db \<Rightarrow> bool \<times> deployment \<times> db" where
  "checkStatus_body p attempts x d =
     (case reply p of
        None \<Rightarrow> (attempts < maxAttempts, x, d)
      | Some srv \<Rightarrow>
         (if svc_status srv = ''live'' \<or> svc_status srv = ''ready'' then
            (let x' = x\<lparr>status := Live, deploymentUrl := Some (svc_url srv)\<rparr>
             in case Deployment_save (saveFault p) x' d of
                  Inr d' \<Rightarrow> (False, x', d')
                | Inl ex \<Rightarrow> (attempts < maxAttempts, x', d))
          else if svc_status srv = ''failed'' \<or> svc_status srv = ''error'' then
            (let x' = x\<lparr>status := Error\<rparr>
             in case Deployment_save (saveFault p) x' d of
                  Inr d' \<Rightarrow> (False, x', d')
                | Inl ex \<Rightarrow> (attempts < maxAttempts, x', d))
          else if attempts < maxAttempts then (True, x, d)
          else
            (let x' = x\<lparr>status := Error\<rparr>
             in case Deployment_save (saveFault p) x' d of
                  Inr d' \<Rightarrow> (False, x', d')
                | Inl ex \<Rightarrow> (attempts < maxAttempts, x', d))))"

text \<open>
  The timer loop: the list of the states (document in memory, store) after each run of
  the body; the run with counter \<open>n\<close> gets the environment's poll \<open>env n\<close>.
\<close>

function checkStatus :: "(nat \<Rightarrow> poll) \<Rightarrow> nat \<Rightarrow> deployment \<Rightarrow> db \<Rightarrow> (deployment \<times> db) list" where
  "checkStatus env attempts x d =
     (let r = checkStatus_body (env attempts) attempts x d
      in (snd r) # (if fst r then checkStatus env (Suc attempts) (fst (snd r)) (snd (snd r)) else []))"
  by pat_completeness auto
termination
proof (relation "measure (\<lambda>(env, attempts, x, d). Suc maxAttempts - attempts)")
  show "wf (measure (\<lambda>(env, attempts, x, d). Suc maxAttempts - attempts))"
    by simp
next
  fix env :: "nat \<Rightarrow> poll" and attempts :: nat and x :: deployment and d :: db and r
  assume r: "r = checkStatus_body (env attempts) attempts x d" and again: "fst r"
  from r again have "attempts < maxAttempts"
    by (auto simp: checkStatus_body_def Let_def split: option.splits if_splits sum.splits)
  then show "((env, Suc attempts, fst (snd r), snd (snd r)), (env, attempts, x, d))
               \<in> measure (\<lambda>(env, attempts, x, d). Suc maxAttempts - attempts)"
    by simp
qed

definition monitorDeployment :: "(nat \<Rightarrow> poll) \<Rightarrow> deployment \<Rightarrow> db \<Rightarrow> (deployment \<times> db) list" where
  "monitorDeployment env x d = checkStatus env 0 x d"

text \<open>The \<open>catch\<close> block of \<open>processDeployment\<close>; nothing catches its own \<open>save()\<close>.\<close>

definition process_catch :: "bool \<Rightarrow> deployment \<Rightarrow> db \<Rightarrow> deployment \<times> db" where
  "process_catch fault x d =
     (let x' = x\<lparr>status := Error\<rparr>
      in case Deployment_save fault x' d of Inr d' \<Rightarrow> (x', d') | Inl ex \<Rightarrow> (x', d))"

text \<open>
  \<open>processFileUpload(deploymentId, files)\<close>, called with \<open>deployment._id\<close>: the path of the
  upload directory, then the extraction of the first file whose name ends in \<open>.zip\<close>;
  \<open>optimizeImages\<close> catches its own exceptions. \<open>files\<close> holds the uploaded files' names.
\<close>

definition processFileUpload :: "bool \<Rightarrow> oid \<Rightarrow> string list \<Rightarrow> exn + unit" where
  "processFileUpload fault deploymentId files =
     (case uploads_dir (PathObjectId deploymentId) of
        Inl ex \<Rightarrow> Inl ex
      | Inr uploadDir \<Rightarrow>
         (case find (\<lambda>f. suffix ''.zip'' f) files of
            Some zipFile \<Rightarrow> (if fault then Inl FsError else Inr ())
          | None \<Rightarrow> Inr ()))"

text \<open>
  \<open>processDeployment(deployment, files)\<close>: the states after each \<open>save()\<close>, after the
  \<open>catch\<close> block and after each poll. \<open>processFileUpload\<close> is called when there are
  files; \<open>addCustomDomain\<close> throws when the environment says so, and \<open>createStaticSite\<close>
  throws when \<open>createReply\<close> is \<open>None\<close>.
\<close>

definition processDeployment :: "proc_env \<Rightarrow> deployment \<Rightarrow> string list \<Rightarrow> db \<Rightarrow> (deployment \<times> db) list" where
  "processDeployment env x files d =
     (let x1 = x\<lparr>status := Deploying\<rparr>
      in case Deployment_save (save1Fault env) x1 d of
           Inl ex \<Rightarrow> [process_catch (catchSaveFault env) x1 d]
         | Inr d1 \<Rightarrow> (x1, d1) #
            (if files \<noteq> [] \<and> isl (processFileUpload (extractFault env) (dep_id x1) files)
             then [process_catch (catchSaveFault env) x1 d1]
             else case createReply env of
                 None \<Rightarrow> [process_catch (catchSaveFault env) x1 d1]
               | Some renderService \<Rightarrow>
                  (let x2 = x1\<lparr>renderServiceId := Some (svc_id renderService),
                               deploymentUrl := Some (svc_url renderService)\<rparr>
                   in case Deployment_save (save2Fault env) x2 d1 of
                        Inl ex \<Rightarrow> [process_catch (catchSaveFault env) x2 d1]
                      | Inr d2 \<Rightarrow> (x2, d2) #
                         (if domain x2 \<noteq> [] \<and> \<not> sublist ''ntl.cloud'' (domain x2)
                               \<and> domainFault env
                          then [process_catch (catchSaveFault env) x2 d2]
                          else monitorDeployment (polls env) x2 d2))))"

section \<open>Creating a deployment\<close>

record deploy_request =
  req_projectName :: string
  req_domain :: string
  req_repositoryUrl :: "string option"
  req_buildCommand :: "string option"
  req_outputDir :: "string option"

text \<open>
  \<open>new Deployment({...})\<close> with the schema's defaults; the environment gives the \<open>_id\<close>
  and \<open>Date.now()\<close>.
\<close>

definition new_Deployment :: "oid \<Rightarrow> int \<Rightarrow> oid \<Rightarrow> deploy_request \<Rightarrow> deployment" where
  "new_Deployment newId now u req =
     \<lparr>dep_id = newId, userId = u, projectName = req_projectName req, domain = req_domain req,
      repositoryUrl = req_repositoryUrl req, branch = ''main'',
      buildCommand = req_buildCommand req,
      outputDir = (case req_outputDir req of None \<Rightarrow> ''dist'' | Some o' \<Rightarrow> o'),
      status = Building, renderServiceId = None, deploymentUrl = None, sslEnabled = True,
      createdAt = now, visitors = 0, bandwidth = 0\<rparr>"

definition checkDomainAvailability :: "bool \<Rightarrow> db \<Rightarrow> string \<Rightarrow> bool" where
  "checkDomainAvailability fault d dn =
     (case Deployment_findOne_domain fault d dn of
        Inr existingDeployment \<Rightarrow> existingDeployment = None
      | Inl ex \<Rightarrow> False)"

text \<open>
  \<open>app.post('/api/deploy')\<close> of the server with the provider: the response, the store
  when the response is sent, and the states of the process it starts without awaiting.
\<close>

definition post_deploy ::
  "bool \<Rightarrow> bool \<Rightarrow> oid \<Rightarrow> int \<Rightarrow> proc_env \<Rightarrow> db \<Rightarrow> oid \<Rightarrow> deploy_request \<Rightarrow> string list
     \<Rightarrow> response \<times> db \<times> (deployment \<times> db) list" where
  "post_deploy findFault insertFault newId now env d u req files =
     (if \<not> checkDomainAvailability findFault d (req_domain req)
      then (respond 400 (ErrorBody ''Domain not available''), d, [])
      else let x = new_Deployment newId now u req
           in case Deployment_insert insertFault x d of
                Inl ex \<Rightarrow> (respond 500 (ErrorBody ''Deployment failed''), d, [])
              | Inr d' \<Rightarrow>
                 (respond 200 (DeployBody ''Deployment started'' (dep_id x) (req_domain req)
                                 ''15-30 seconds''),
                  d', processDeployment env x files d'))"

text \<open>
  The simplified server: no availability check, and a timer that sets the record live
  after 15 seconds (its \<open>save()\<close> is not awaited).
\<close>

definition simple_timer :: "bool \<Rightarrow> deployment \<Rightarrow> string \<Rightarrow> db \<Rightarrow> deployment \<times> db" where
  "simple_timer fault x dn d =
     (let x' = x\<lparr>status := Live, deploymentUrl := Some (''https://'' @ dn)\<rparr>
      in case Deployment_save fault x' d of Inr d' \<Rightarrow> (x', d') | Inl ex \<Rightarrow> (x', d))"

definition post_deploy_simple ::
  "bool \<Rightarrow> bool \<Rightarrow> oid \<Rightarrow> int \<Rightarrow> db \<Rightarrow> oid \<Rightarrow> deploy_request
     \<Rightarrow> response \<times> db \<times> (deployment \<times> db) list" where
  "post_deploy_simple insertFault timerFault newId now d u req =
     (let x = new_Deployment newId now u req
      in case Deployment_insert insertFault x d of
           Inl ex \<Rightarrow> (respond 500 (ErrorBody ''Deployment failed''), d, [])
         | Inr d' \<Rightarrow>
            (respond 200 (DeployBody ''Deployment started'' (dep_id x) (req_domain req)
                            ''15-30 seconds''),
             d', [simple_timer timerFault x (req_domain req) d']))"

section \<open>Observing the store\<close>

definition stored_doc :: "db \<Rightarrow> oid \<Rightarrow> deployment option" where
  "stored_doc d i = find (\<lambda>x. dep_id x = i) (deployments d)"

text \<open>
  The lifecycle order \<open>building \<rightarrow> deploying \<rightarrow> {live | error}\<close>: a status may stay
  what it is or move to a later rank; \<open>live\<close> and \<open>error\<close> share the last rank, so
  neither moves to the other.
\<close>

fun rank :: "status \<Rightarrow> nat" where
  "rank Building = 0"
| "rank Deploying = 1"
| "rank Live = 2"
| "rank Error = 2"

definition forward :: "status \<Rightarrow> status \<Rightarrow> bool" where
  "forward s t = (s = t \<or> rank s < rank t)"

fun forward_opt :: "status option \<Rightarrow> status option \<Rightarrow> bool" where
  "forward_opt (Some s) (Some t) = forward s t"
| "forward_opt _ _ = False"

text \<open>The stored status of deployment \<open>i\<close> in each state of a run.\<close>

definition status_trace :: "oid \<Rightarrow> (deployment \<times> db) list \<Rightarrow> status option list" where
  "status_trace i tr = map (\<lambda>s. stored_status (snd s) i) tr"

text \<open>A poll that reports no terminal status: it throws, or the status is none of the four.\<close>

definition pending :: "poll \<Rightarrow> bool" where
  "pending p = (case reply p of None \<Rightarrow> True
     | Some srv \<Rightarrow> svc_status srv \<noteq> ''live'' \<and> svc_status srv \<noteq> ''ready''
                  \<and> svc_status srv \<noteq> ''failed'' \<and> svc_status srv \<noteq> ''error'')"

subsection \<open>Concrete inputs\<close>

definition demo_dep :: "oid \<Rightarrow> oid \<Rightarrow> string \<Rightarrow> int \<Rightarrow> status \<Rightarrow> deployment" where
  "demo_dep i u dn t st =
     \<lparr>dep_id = i, userId = u, projectName = ''demo'', domain = dn, repositoryUrl = None,
      branch = ''main'', buildCommand = None, outputDir = ''dist'', status = st,
      renderServiceId = None, deploymentUrl = None, sslEnabled = True, createdAt = t,
      visitors = 0, bandwidth = 0\<rparr>"

definition demo_user :: "string \<Rightarrow> user" where
  "demo_user h = \<lparr>user_id = 1, email = ''a@x.org'', password = h, plan = ''free''\<rparr>"

definition demo_db :: db where
  "demo_db = \<lparr>users = [demo_user ''$2a$10$abc''], deployments =
      [demo_dep 1 1 ''a.ntl.cloud'' 10 Live, demo_dep 2 2 ''b.ntl.cloud'' 20 Live,
       demo_dep 3 1 ''c.ntl.cloud'' 30 Building]\<rparr>"

text \<open>Twelve deployments of user 1, created at times 1 to 12.\<close>

definition many_dep :: "nat \<Rightarrow> deployment" where
  "many_dep n = demo_dep n 1 (replicate n CHR ''a'') (int n) Live"

definition many_db :: db where
  "many_db = \<lparr>users = [], deployments = map many_dep [1..<13]\<rparr>"

definition demo_req :: "string \<Rightarrow> deploy_request" where
  "demo_req dn = \<lparr>req_projectName = ''demo'', req_domain = dn, req_repositoryUrl = None,
                 req_buildCommand = None, req_outputDir = None\<rparr>"

definition demo_service :: "string \<Rightarrow> service" where
  "demo_service st = \<lparr>svc_id = ''srv-1'', svc_status = st,
                      svc_url = ''https://demo-1.onrender.com''\<rparr>"

definition demo_poll :: "string \<Rightarrow> poll" where
  "demo_poll st = \<lparr>reply = Some (demo_service st), saveFault = False\<rparr>"

definition throwing_poll :: poll where
  "throwing_poll = \<lparr>reply = None, saveFault = False\<rparr>"

definition demo_env :: "(nat \<Rightarrow> poll) \<Rightarrow> proc_env" where
  "demo_env ps = \<lparr>save1Fault = False, extractFault = False,
                  createReply = Some (demo_service ''creating''), save2Fault = False,
                  domainFault = False, catchSaveFault = False, polls = ps\<rparr>"

text \<open>
  Thirty polls that report a build in progress, then polls that throw; and a store whose
  only deployment is being deployed.
\<close>

definition flaky_polls :: "nat \<Rightarrow> poll" where
  "flaky_polls n = (if n < 30 then demo_poll ''build_in_progress'' else throwing_poll)"

definition deploying_db :: db where
  "deploying_db = \<lparr>users = [], deployments = [demo_dep 7 1 ''demo.ntl.cloud'' 40 Deploying]\<rparr>"

text \<open>A first poll that reports a build in progress, then polls that report \<open>live\<close>.\<close>

definition two_polls :: "nat \<Rightarrow> poll" where
  "two_polls n = (if n = 0 then demo_poll ''build_in_progress'' else demo_poll ''live'')"

text \<open>An environment in which \<open>createStaticSite\<close> throws.\<close>

definition create_fails_env :: proc_env where
  "create_fails_env = (demo_env two_polls)\<lparr>createReply := None\<rparr>"

text \<open>An environment in which \<open>addCustomDomain\<close> throws.\<close>

definition domain_fails_env :: proc_env where
  "domain_fails_env = (demo_env two_polls)\<lparr>domainFault := True\<rparr>"

text \<open>The ids 2 and 3 as a request writes them, and a request id that is no ObjectId.\<close>

definition rid_two :: string where
  "rid_two = ''000000000000000000000002''"

definition rid_three :: string where
  "rid_three = ''000000000000000000000003''"

definition rid_malformed :: string where
  "rid_malformed = ''abc''"

text \<open>A user without the stored hash; a stand-in for bcrypt and for \<open>jwt.sign\<close>.\<close>

definition strip_hash :: "user \<Rightarrow> user" where
  "strip_hash usr = usr\<lparr>password := []\<rparr>"

definition demo_compare :: "string \<Rightarrow> string \<Rightarrow> bool" where
  "demo_compare p h = (drop 4 h = p)"

definition demo_sign :: "oid \<Rightarrow> string" where
  "demo_sign i = ''jwt-'' @ replicate i CHR ''i''"

definition users_db :: "string \<Rightarrow> db" where
  "users_db h = \<lparr>users = [demo_user h], deployments = []\<rparr>"

section \<open>Facts about the database calls\<close>

declare checkStatus.simps [simp del]

lemma find_None_iff_ball: "find P xs = None \<longleftrightarrow> (\<forall>x \<in> set xs. \<not> P x)"
  by (induction xs) auto

text \<open>
  \<open>path.join\<close> throws at an ObjectId and at \<open>undefined\<close>: so does the destination
  callback of an upload (\<open>req.deploymentId\<close> is set by the handler, which runs after
  it), and so does \<open>processFileUpload\<close>. A request that carries a file therefore never
  reaches the handler of \<open>POST /api/deploy\<close>.
\<close>

lemma uploads_dir_ObjectId [simp]: "uploads_dir (PathObjectId i) = Inl TypeError"
  by (simp add: uploads_dir_def)

lemma multer_destination_undefined: "multer_destination PathUndefined = Inl TypeError"
  by (simp add: multer_destination_def uploads_dir_def)

lemma processFileUpload_throws [simp]: "processFileUpload fault i files = Inl TypeError"
  by (simp add: processFileUpload_def)

lemma stored_status_doc: "stored_status d i = map_option status (stored_doc d i)"
  by (simp add: stored_status_def stored_doc_def)

lemma find_map_replace:
  assumes "\<exists>y \<in> set ys. dep_id y = dep_id x"
  shows "find (\<lambda>y. dep_id y = dep_id x) (map (\<lambda>y. if dep_id y = dep_id x then x else y) ys) = Some x"
  using assms by (induction ys) auto

lemma save_stored:
  assumes "Deployment_save fault x d = Inr d'"
  shows "stored_doc d' (dep_id x) = Some x"
proof -
  from assms have ex: "\<exists>y \<in> set (deployments d). dep_id y = dep_id x"
    and d': "d' = d\<lparr>deployments :=
                  map (\<lambda>y. if dep_id y = dep_id x then x else y) (deployments d)\<rparr>"
    by (auto simp: Deployment_save_def split: if_splits)
  from find_map_replace[OF ex] d' show ?thesis
    by (simp add: stored_doc_def)
qed

lemma find_append_new:
  assumes "\<forall>y \<in> set ys. \<not> P y" and "P x"
  shows "find P (ys @ [x]) = Some x"
  using assms by (induction ys) auto

lemma insert_stored:
  assumes "Deployment_insert fault x d = Inr d'"
  shows "stored_doc d' (dep_id x) = Some x"
proof -
  from assms have "\<forall>y \<in> set (deployments d). \<not> dep_id y = dep_id x"
    and "d' = d\<lparr>deployments := deployments d @ [x]\<rparr>"
    by (auto simp: Deployment_insert_def split: if_splits)
  then show ?thesis
    by (simp add: stored_doc_def find_append_new)
qed

lemma insert_dup:
  assumes "\<exists>y \<in> set (deployments d). domain y = domain x"
  shows "\<exists>e. Deployment_insert fault x d = Inl e"
  using assms by (auto simp: Deployment_insert_def)

lemma avail_dup:
  assumes "\<exists>y \<in> set (deployments d). domain y = dn"
  shows "\<not> checkDomainAvailability fault d dn"
proof -
  from assms have "find (\<lambda>x. domain x = dn) (deployments d) \<noteq> None"
    by (simp add: find_None_iff_ball)
  then show ?thesis
    by (auto simp: checkDomainAvailability_def Deployment_findOne_domain_def)
qed

section \<open>Claims\<close>

text \<open>
  C1, as amended. A request to create a deployment whose domain is the domain of a stored
  deployment persists nothing and leaves the store as it was, whatever the database
  calls do. The server with the provider answers 400 \<open>Domain not available\<close>. The
  simplified server has no availability check: the unique index on \<open>domain\<close> refuses the
  \<open>save()\<close>, and the answer is 500 \<open>Deployment failed\<close>.
\<close>

theorem duplicate_domain_rejected:
  assumes "\<exists>y \<in> set (deployments d). domain y = req_domain req"
  shows "post_deploy findFault insertFault newId now env d u req files
           = (respond 400 (ErrorBody ''Domain not available''), d, [])
         \<and> post_deploy_simple insertFault timerFault newId now d u req
           = (respond 500 (ErrorBody ''Deployment failed''), d, [])"
proof -
  have "domain (new_Deployment newId now u req) = req_domain req"
    by (simp add: new_Deployment_def)
  with assms obtain e where "Deployment_insert insertFault (new_Deployment newId now u req) d = Inl e"
    using insert_dup[of d "new_Deployment newId now u req" insertFault] by auto
  then have "post_deploy_simple insertFault timerFault newId now d u req
           = (respond 500 (ErrorBody ''Deployment failed''), d, [])"
    by (simp add: post_deploy_simple_def)
  moreover from avail_dup[OF assms]
  have "post_deploy findFault insertFault newId now env d u req files
           = (respond 400 (ErrorBody ''Domain not available''), d, [])"
    by (simp add: post_deploy_def)
  ultimately show ?thesis by simp
qed

theorem duplicate_domain_rejected_witness:
  "post_deploy False False 9 40 (demo_env (\<lambda>n. demo_poll ''live'')) demo_db 1
       (demo_req ''a.ntl.cloud'') []
     = (respond 400 (ErrorBody ''Domain not available''), demo_db, [])
   \<and> post_deploy_simple False False 9 40 demo_db 1 (demo_req ''a.ntl.cloud'')
     = (respond 500 (ErrorBody ''Deployment failed''), demo_db, [])"
proof -
  have "\<exists>y \<in> set (deployments demo_db). domain y = req_domain (demo_req ''a.ntl.cloud'')"
    by (simp add: demo_db_def demo_dep_def demo_req_def)
  from duplicate_domain_rejected[OF this] show ?thesis .
qed

text \<open>
  C1 as stated fails on the simplified server: the domain of the request is the domain of
  a stored deployment, and the answer is 500, not 400.
\<close>

theorem duplicate_domain_simple_counterexample:
  "domain (demo_dep 1 1 ''a.ntl.cloud'' 10 Live) = req_domain (demo_req ''a.ntl.cloud'')
   \<and> demo_dep 1 1 ''a.ntl.cloud'' 10 Live \<in> set (deployments demo_db)
   \<and> code (fst (post_deploy_simple False False 9 40 demo_db 1 (demo_req ''a.ntl.cloud''))) = 500
   \<and> code (fst (post_deploy_simple False False 9 40 demo_db 1 (demo_req ''a.ntl.cloud''))) \<noteq> 400"
  by (simp add: post_deploy_simple_def Deployment_insert_def new_Deployment_def demo_db_def
       demo_dep_def demo_req_def respond_def)

text \<open>
  C5, as amended. Take an authenticated \<open>DELETE /api/deployments/:id\<close> where no stored
  deployment has the id of the request and the caller as its owner. When the id is a
  well-formed ObjectId and the lookup returns, the answer is 404 \<open>Deployment not found\<close>.
  When the id is not a well-formed ObjectId, or the lookup throws, the answer is 500
  \<open>Internal server error\<close>. In each case the store is left as it was and the answer is
  not a success; so a success is only returned when a deployment with that id, owned by
  the caller, was stored.
\<close>

theorem delete_not_found:
  assumes "\<forall>x \<in> set (deployments d). \<not> (castObjectId rid = Some (dep_id x) \<and> userId x = u)"
  shows "(castObjectId rid \<noteq> None \<longrightarrow>
            fst (delete_deployment False rmdirFault deleteFault d u rid)
              = respond 404 (ErrorBody ''Deployment not found''))
         \<and> (castObjectId rid = None \<longrightarrow>
            fst (delete_deployment findFault rmdirFault deleteFault d u rid)
              = respond 500 (ErrorBody ''Internal server error''))
         \<and> fst (delete_deployment True rmdirFault deleteFault d u rid)
              = respond 500 (ErrorBody ''Internal server error'')
         \<and> snd (delete_deployment findFault rmdirFault deleteFault d u rid) = d
         \<and> code (fst (delete_deployment findFault rmdirFault deleteFault d u rid)) \<noteq> 200"
proof (cases "castObjectId rid")
  case None
  then show ?thesis
    by (simp add: delete_deployment_def Deployment_findOne_owned_def respond_def)
next
  case (Some i)
  with assms have "find (\<lambda>x. dep_id x = i \<and> userId x = u) (deployments d) = None"
    by (simp add: find_None_iff_ball)
  with Some show ?thesis
    by (simp add: delete_deployment_def Deployment_findOne_owned_def respond_def)
qed

text \<open>
  User 1 asks to delete deployment 2, which user 2 owns, and then a deployment with an id
  that is no ObjectId.
\<close>

theorem delete_not_found_witness:
  "fst (delete_deployment False False False demo_db 1 rid_two)
     = respond 404 (ErrorBody ''Deployment not found'')
   \<and> fst (delete_deployment True False False demo_db 1 rid_two)
     = respond 500 (ErrorBody ''Internal server error'')
   \<and> snd (delete_deployment False False False demo_db 1 rid_two) = demo_db
   \<and> code (fst (delete_deployment False False False demo_db 1 rid_two)) \<noteq> 200
   \<and> fst (delete_deployment False False False demo_db 1 rid_malformed)
     = respond 500 (ErrorBody ''Internal server error'')
   \<and> snd (delete_deployment False False False demo_db 1 rid_malformed) = demo_db"
proof -
  have c2: "castObjectId rid_two = Some 2"
    by code_simp
  have cm: "castObjectId rid_malformed = None"
    by code_simp
  have a: "\<forall>x \<in> set (deployments demo_db). \<not> (castObjectId rid_two = Some (dep_id x) \<and> userId x = 1)"
    by (simp add: c2 demo_db_def demo_dep_def)
  have b: "\<forall>x \<in> set (deployments demo_db).
             \<not> (castObjectId rid_malformed = Some (dep_id x) \<and> userId x = 1)"
    by (simp add: cm)
  from delete_not_found[OF a, where findFault = False and rmdirFault = False
         and deleteFault = False] c2
    delete_not_found[OF b, where findFault = False and rmdirFault = False
         and deleteFault = False] cm
  show ?thesis by (simp add: respond_def)
qed

text \<open>
  C5 as stated fails twice. No deployment has the id \<open>abc\<close>, the database is healthy, and
  the answer is 500: the lookup's cast of the id throws. And no deployment of user 1 has
  the id 2, the lookup throws, and the answer is 500. Neither answer is 404.
\<close>

theorem delete_malformed_id_counterexample:
  "castObjectId rid_malformed = None
   \<and> fst (delete_deployment False False False demo_db 1 rid_malformed)
       = respond 500 (ErrorBody ''Internal server error'')
   \<and> castObjectId rid_two = Some 2
   \<and> find (\<lambda>x. dep_id x = 2 \<and> userId x = 1) (deployments demo_db) = None
   \<and> fst (delete_deployment True False False demo_db 1 rid_two)
       = respond 500 (ErrorBody ''Internal server error'')"
  by code_simp

text \<open>
  C6. Every deployment in the list that \<open>GET /api/deployments\<close> returns to caller \<open>u\<close> has
  \<open>u\<close> as its owner. The route is the same in both servers.
\<close>

theorem get_deployments_only_own:
  assumes "body (get_deployments findFault d u) = DeploymentsBody ds"
  shows "\<forall>x \<in> set ds. userId x = u"
proof -
  from assms have "ds = take 10 (sort_key (\<lambda>x. - createdAt x)
                     (filter (\<lambda>x. userId x = u) (deployments d)))"
    by (simp add: get_deployments_def Deployment_find_recent_def respond_def split: if_splits)
  then have "set ds \<subseteq> set (filter (\<lambda>x. userId x = u) (deployments d))"
    using set_take_subset[of 10] by fastforce
  then show ?thesis by auto
qed

theorem get_deployments_only_own_witness:
  "body (get_deployments False demo_db 1)
     = DeploymentsBody [demo_dep 3 1 ''c.ntl.cloud'' 30 Building,
                        demo_dep 1 1 ''a.ntl.cloud'' 10 Live]
   \<and> userId (demo_dep 3 1 ''c.ntl.cloud'' 30 Building) = 1
   \<and> userId (demo_dep 1 1 ''a.ntl.cloud'' 10 Live) = 1"
proof -
  have b: "body (get_deployments False demo_db 1)
     = DeploymentsBody [demo_dep 3 1 ''c.ntl.cloud'' 30 Building,
                        demo_dep 1 1 ''a.ntl.cloud'' 10 Live]"
    by (simp add: get_deployments_def Deployment_find_recent_def respond_def demo_db_def
         demo_dep_def)
  from get_deployments_only_own[OF b] b show ?thesis by simp
qed

text \<open>
  C9. The list that \<open>GET /api/deployments\<close> returns has at most 10 deployments, ordered by
  creation time, the most recent first. It holds ten of the caller's stored deployments,
  or all of them when there are fewer, and a deployment of the caller that is left out was
  created no later than every one returned.
\<close>

theorem get_deployments_limit_sorted:
  assumes "body (get_deployments findFault d u) = DeploymentsBody ds"
  shows "length ds \<le> 10 \<and> sorted_wrt (\<lambda>a b. createdAt a \<ge> createdAt b) ds
         \<and> length ds = min 10 (length (filter (\<lambda>x. userId x = u) (deployments d)))
         \<and> set ds \<subseteq> set (deployments d)
         \<and> (\<forall>x \<in> set (deployments d). userId x = u \<and> x \<notin> set ds \<longrightarrow>
               (\<forall>y \<in> set ds. createdAt x \<le> createdAt y))"
proof -
  let ?own = "filter (\<lambda>x. userId x = u) (deployments d)"
  from assms have ds: "ds = take 10 (sort_key (\<lambda>x. - createdAt x) ?own)"
    by (simp add: get_deployments_def Deployment_find_recent_def respond_def split: if_splits)
  have "sorted (map (\<lambda>x. - createdAt x) (sort_key (\<lambda>x. - createdAt x) ?own))"
    by (rule sorted_sort_key)
  then have srt: "sorted_wrt (\<lambda>a b. createdAt a \<ge> createdAt b) (sort_key (\<lambda>x. - createdAt x) ?own)"
    by (simp add: sorted_wrt_map)
  then have 1: "sorted_wrt (\<lambda>a b. createdAt a \<ge> createdAt b) ds"
    unfolding ds by (rule sorted_wrt_take)
  have 2: "length ds \<le> 10" unfolding ds by simp
  have 3: "length ds = min 10 (length ?own)" unfolding ds by simp
  let ?xs = "sort_key (\<lambda>x. - createdAt x) ?own"
  have "set ds \<subseteq> set ?xs" unfolding ds by (rule set_take_subset)
  then have 4: "set ds \<subseteq> set (deployments d)" by auto
  from srt have "sorted_wrt (\<lambda>a b. createdAt a \<ge> createdAt b) (take 10 ?xs @ drop 10 ?xs)"
    by simp
  then have cross: "\<forall>a \<in> set (take 10 ?xs). \<forall>b \<in> set (drop 10 ?xs). createdAt a \<ge> createdAt b"
    unfolding sorted_wrt_append by blast
  have 5: "\<forall>x \<in> set (deployments d). userId x = u \<and> x \<notin> set ds \<longrightarrow>
               (\<forall>y \<in> set ds. createdAt x \<le> createdAt y)"
  proof (intro ballI impI)
    fix x y
    assume x: "x \<in> set (deployments d)" "userId x = u \<and> x \<notin> set ds" and y: "y \<in> set ds"
    from x have "x \<in> set ?xs" by simp
    then have "x \<in> set (take 10 ?xs) \<union> set (drop 10 ?xs)"
      by (metis append_take_drop_id set_append)
    with x have "x \<in> set (drop 10 ?xs)" unfolding ds by simp
    with cross y show "createdAt x \<le> createdAt y" unfolding ds by blast
  qed
  from 1 2 3 4 5 show ?thesis by blast
qed

text \<open>The caller owns twelve deployments; the ten created last come back, newest first.\<close>

theorem get_deployments_limit_sorted_witness:
  "body (get_deployments False many_db 1) = DeploymentsBody (map many_dep (rev [3..<13]))
   \<and> length (map many_dep (rev [3..<13])) \<le> 10
   \<and> sorted_wrt (\<lambda>a b. createdAt a \<ge> createdAt b) (map many_dep (rev [3..<13]))"
proof -
  have b: "body (get_deployments False many_db 1) = DeploymentsBody (map many_dep (rev [3..<13]))"
    by code_simp
  from get_deployments_limit_sorted[OF b] b show ?thesis by blast
qed

section \<open>Facts about the deployment process\<close>

lemma checkStatus_body_cases:
  assumes "checkStatus_body p a x d = (again, x', d')"
  shows "dep_id x' = dep_id x \<and> domain x' = domain x
         \<and> (again \<longrightarrow> a < maxAttempts)
         \<and> (d' = d \<or>
             (\<not> again \<and> stored_doc d' (dep_id x) = Some x'
              \<and> (status x' = Error
                  \<or> (\<exists>srv. reply p = Some srv
                        \<and> (svc_status srv = ''live'' \<or> svc_status srv = ''ready'')
                        \<and> status x' = Live \<and> deploymentUrl x' = Some (svc_url srv)))))"
proof (cases "reply p")
  case None
  with assms show ?thesis by (simp add: checkStatus_body_def)
next
  case (Some srv)
  show ?thesis
  proof (cases "svc_status srv = ''live'' \<or> svc_status srv = ''ready''")
    case True
    let ?y = "x\<lparr>status := Live, deploymentUrl := Some (svc_url srv)\<rparr>"
    show ?thesis
    proof (cases "Deployment_save (saveFault p) ?y d")
      case (Inl e)
      with assms Some True show ?thesis by (auto simp: checkStatus_body_def Let_def)
    next
      case (Inr d2)
      from save_stored[OF Inr] have "stored_doc d2 (dep_id x) = Some ?y" by simp
      with assms Some True Inr show ?thesis by (auto simp: checkStatus_body_def Let_def)
    qed
  next
    case False
    let ?y = "x\<lparr>status := Error\<rparr>"
    show ?thesis
    proof (cases "Deployment_save (saveFault p) ?y d")
      case (Inl e)
      with assms Some False show ?thesis
        by (auto simp: checkStatus_body_def Let_def split: if_splits)
    next
      case (Inr d2)
      from save_stored[OF Inr] have "stored_doc d2 (dep_id x) = Some ?y" by simp
      with assms Some False Inr show ?thesis
        by (auto simp: checkStatus_body_def Let_def split: if_splits)
    qed
  qed
qed

text \<open>A poll that reports nothing terminal before the budget is used up changes nothing.\<close>

lemma checkStatus_body_pending:
  assumes "pending p" and "a < maxAttempts"
  shows "checkStatus_body p a x d = (True, x, d)"
  using assms by (auto simp: checkStatus_body_def pending_def split: option.splits)

lemma checkStatus_body_last_throws:
  assumes "reply p = None"
  shows "checkStatus_body p maxAttempts x d = (False, x, d)"
  using assms by (simp add: checkStatus_body_def)

lemma checkStatus_pending_throws:
  assumes "\<forall>n < maxAttempts. pending (env n)" and "reply (env maxAttempts) = None"
    and "a \<le> maxAttempts"
  shows "checkStatus env a x d = replicate (Suc maxAttempts - a) (x, d)"
  using assms
proof (induction env a x d rule: checkStatus.induct)
  case (1 env attempts x d)
  show ?case
  proof (cases "attempts < maxAttempts")
    case True
    with "1.prems" have b: "checkStatus_body (env attempts) attempts x d = (True, x, d)"
      by (simp add: checkStatus_body_pending)
    from "1.IH"[of "(True, x, d)"] b "1.prems" True
    have "checkStatus env (Suc attempts) x d = replicate (Suc maxAttempts - Suc attempts) (x, d)"
      by simp
    moreover from True have "Suc maxAttempts - attempts = Suc (Suc maxAttempts - Suc attempts)"
      by simp
    ultimately show ?thesis using b
      by (subst checkStatus.simps) simp
  next
    case False
    with "1.prems" have eq: "attempts = maxAttempts" by simp
    with "1.prems" have b: "checkStatus_body (env attempts) attempts x d = (False, x, d)"
      by (simp add: checkStatus_body_last_throws)
    with eq show ?thesis
      by (subst checkStatus.simps) simp
  qed
qed

lemma checkStatus_pending_returns:
  assumes "\<forall>n \<le> maxAttempts. pending (env n)" and "reply (env maxAttempts) = Some srv"
    and "Deployment_save (saveFault (env maxAttempts)) (x\<lparr>status := Error\<rparr>) d = Inr d'"
    and "a \<le> maxAttempts"
  shows "last (checkStatus env a x d) = (x\<lparr>status := Error\<rparr>, d')"
  using assms
proof (induction env a x d rule: checkStatus.induct)
  case (1 env attempts x d)
  show ?case
  proof (cases "attempts < maxAttempts")
    case True
    with "1.prems" have b: "checkStatus_body (env attempts) attempts x d = (True, x, d)"
      by (simp add: checkStatus_body_pending)
    from "1.IH"[of "(True, x, d)"] b "1.prems" True
    have "last (checkStatus env (Suc attempts) x d) = (x\<lparr>status := Error\<rparr>, d')"
      by simp
    moreover have "checkStatus env (Suc attempts) x d \<noteq> []"
      by (subst checkStatus.simps) (simp add: Let_def)
    ultimately show ?thesis using b
      by (subst checkStatus.simps) simp
  next
    case False
    with "1.prems" have eq: "attempts = maxAttempts" by simp
    from "1.prems" have "pending (env maxAttempts)" by simp
    with eq "1.prems"(2,3) show ?thesis
      by (subst checkStatus.simps) (auto simp: checkStatus_body_def pending_def Let_def)
  qed
qed


text \<open>
  C2. The claim holds when the last poll returns (\<open>checkStatus_pending_returns\<close>: the
  status is set to \<open>error\<close> and saved), and fails when it throws: the \<open>catch\<close> block of
  \<open>checkStatus\<close> only reschedules while \<open>attempts < maxAttempts\<close>, so after the poll
  with the counter at 30 (the 31st) nothing is written and the stored status stays what
  it was.
\<close>

theorem monitor_last_poll_throws:
  assumes "\<forall>n < maxAttempts. pending (env n)" and "reply (env maxAttempts) = None"
  shows "length (monitorDeployment env x d) = Suc maxAttempts
         \<and> snd (last (monitorDeployment env x d)) = d
         \<and> stored_status (snd (last (monitorDeployment env x d))) (dep_id x)
             = stored_status d (dep_id x)"
  using checkStatus_pending_throws[OF assms, of 0 x d]
  by (simp add: monitorDeployment_def)

theorem monitor_last_poll_throws_witness:
  "length (monitorDeployment flaky_polls (demo_dep 7 1 ''demo.ntl.cloud'' 40 Deploying) deploying_db) = 31
   \<and> stored_status (snd (last (monitorDeployment flaky_polls
         (demo_dep 7 1 ''demo.ntl.cloud'' 40 Deploying) deploying_db))) 7 = Some Deploying"
proof -
  have p: "\<forall>n < maxAttempts. pending (flaky_polls n)"
    by (simp add: maxAttempts_def flaky_polls_def pending_def demo_poll_def demo_service_def)
  have t: "reply (flaky_polls maxAttempts) = None"
    by (simp add: maxAttempts_def flaky_polls_def throwing_poll_def)
  have s: "stored_status deploying_db 7 = Some Deploying"
    by (simp add: stored_status_def deploying_db_def demo_dep_def)
  have i: "dep_id (demo_dep 7 1 ''demo.ntl.cloud'' 40 Deploying) = 7"
    by (simp add: demo_dep_def)
  from monitor_last_poll_throws[OF p t, of "demo_dep 7 1 ''demo.ntl.cloud'' 40 Deploying" deploying_db] s i
  show ?thesis by (simp add: maxAttempts_def)
qed

lemma forward_opt_from_building:
  "forward_opt (Some Deploying) y \<Longrightarrow> forward_opt (Some Building) y"
  by (cases y) (auto simp: forward_def)

lemma checkStatus_forward:
  assumes "stored_status d (dep_id x) = Some Deploying"
  shows "sorted_wrt forward_opt (Some Deploying # status_trace (dep_id x) (checkStatus env a x d))"
  using assms
proof (induction env a x d rule: checkStatus.induct)
  case (1 env attempts x d)
  obtain again x' d' where r: "checkStatus_body (env attempts) attempts x d = (again, x', d')"
    by (cases "checkStatus_body (env attempts) attempts x d") auto
  note c = checkStatus_body_cases[OF r]
  show ?case
  proof (cases again)
    case True
    with c have d': "d' = d" and id: "dep_id x' = dep_id x" by auto
    from "1.IH"[of "(again, x', d')"] r True d' id "1.prems"
    have "sorted_wrt forward_opt (Some Deploying # status_trace (dep_id x) (checkStatus env (Suc attempts) x' d))"
      by simp
    with r True d' "1.prems" show ?thesis
      by (subst checkStatus.simps) (simp add: status_trace_def forward_def)
  next
    case False
    from c have "stored_status d' (dep_id x) = Some Deploying
                 \<or> stored_status d' (dep_id x) = Some Error
                 \<or> stored_status d' (dep_id x) = Some Live"
      using "1.prems" by (auto simp: stored_status_doc)
    with r False show ?thesis
      by (subst checkStatus.simps) (auto simp: status_trace_def forward_def)
  qed
qed

lemma process_catch_cases:
  assumes "process_catch fault x d = (x', d')"
  shows "d' = d \<or> stored_status d' (dep_id x) = Some Error"
proof (cases "Deployment_save fault (x\<lparr>status := Error\<rparr>) d")
  case (Inl e)
  with assms show ?thesis by (simp add: process_catch_def Let_def)
next
  case (Inr d2)
  from save_stored[OF Inr] assms Inr show ?thesis
    by (auto simp: process_catch_def stored_status_doc Let_def)
qed

lemma process_catch_forward:
  assumes "stored_status d (dep_id x) = Some s" and "s = Building \<or> s = Deploying"
  shows "forward_opt (Some s) (stored_status (snd (process_catch fault x d)) (dep_id x))"
proof -
  obtain x' d' where pc: "process_catch fault x d = (x', d')"
    by (cases "process_catch fault x d") auto
  from process_catch_cases[OF pc] assms pc show ?thesis
    by (auto simp: forward_def)
qed

lemma processDeployment_forward:
  assumes "stored_status d (dep_id x) = Some Building"
  shows "sorted_wrt forward_opt (Some Building # status_trace (dep_id x) (processDeployment env x files d))"
proof (cases "Deployment_save (save1Fault env) (x\<lparr>status := Deploying\<rparr>) d")
  case (Inl e)
  with process_catch_forward[of d "x\<lparr>status := Deploying\<rparr>" Building "catchSaveFault env"] assms
  show ?thesis
    by (auto simp: processDeployment_def status_trace_def Let_def)
next
  case (Inr d1)
  let ?x1 = "x\<lparr>status := Deploying\<rparr>"
  from save_stored[OF Inr] have s1: "stored_status d1 (dep_id x) = Some Deploying"
    by (simp add: stored_status_doc)
  have bd: "forward_opt (Some Building) (Some Deploying)" by (simp add: forward_def)
  have dd: "forward_opt (Some Deploying) (Some Deploying)" by (simp add: forward_def)
  have c1: "forward_opt (Some Deploying) (stored_status (snd (process_catch (catchSaveFault env) ?x1 d1)) (dep_id x))"
    using process_catch_forward[of d1 ?x1 Deploying] s1 by simp
  show ?thesis
  proof (cases "files \<noteq> []")
    case True
    with Inr s1 c1 forward_opt_from_building[OF c1] bd show ?thesis
      by (auto simp: processDeployment_def status_trace_def Let_def)
  next
    case noUp: False
    show ?thesis
    proof (cases "createReply env")
      case None
      with noUp Inr s1 c1 forward_opt_from_building[OF c1] bd show ?thesis
        by (auto simp: processDeployment_def status_trace_def Let_def)
    next
      case (Some srv)
      let ?x2 = "?x1\<lparr>renderServiceId := Some (svc_id srv), deploymentUrl := Some (svc_url srv)\<rparr>"
      have c2: "forward_opt (Some Deploying) (stored_status (snd (process_catch (catchSaveFault env) ?x2 d1)) (dep_id x))"
        using process_catch_forward[of d1 ?x2 Deploying] s1 by simp
      show ?thesis
      proof (cases "Deployment_save (save2Fault env) ?x2 d1")
        case (Inl e)
        with noUp Some Inr s1 c2 forward_opt_from_building[OF c2] bd show ?thesis
          by (auto simp: processDeployment_def status_trace_def Let_def)
      next
        case save2: (Inr d2)
        from save_stored[OF save2] have s2: "stored_status d2 (dep_id x) = Some Deploying"
          by (simp add: stored_status_doc)
        have c3: "forward_opt (Some Deploying) (stored_status (snd (process_catch (catchSaveFault env) ?x2 d2)) (dep_id x))"
          using process_catch_forward[of d2 ?x2 Deploying] s2 by simp
        show ?thesis
        proof (cases "domain ?x2 \<noteq> [] \<and> \<not> sublist ''ntl.cloud'' (domain ?x2) \<and> domainFault env")
          case True
          with noUp Some Inr save2 s1 s2 c3 forward_opt_from_building[OF c3] bd dd show ?thesis
            by (auto simp: processDeployment_def status_trace_def Let_def)
        next
          case False
          from checkStatus_forward[of d2 ?x2 "polls env" 0] s2
          have m: "sorted_wrt forward_opt (Some Deploying # status_trace (dep_id x) (monitorDeployment (polls env) ?x2 d2))"
            by (simp add: monitorDeployment_def)
          then have "\<forall>y \<in> set (status_trace (dep_id x) (monitorDeployment (polls env) ?x2 d2)). forward_opt (Some Building) y"
            by (auto intro: forward_opt_from_building)
          with m False noUp Some Inr save2 s1 s2 bd dd show ?thesis
            by (auto simp: processDeployment_def status_trace_def Let_def)
        qed
      qed
    qed
  qed
qed

lemma new_Deployment_fields [simp]:
  "dep_id (new_Deployment newId now u req) = newId"
  "status (new_Deployment newId now u req) = Building"
  "domain (new_Deployment newId now u req) = req_domain req"
  "userId (new_Deployment newId now u req) = u"
  by (simp_all add: new_Deployment_def)

lemma simple_timer_cases:
  assumes "simple_timer fault x dn d = (x', d')"
  shows "d' = d \<or> stored_doc d' (dep_id x)
                    = Some (x\<lparr>status := Live, deploymentUrl := Some (''https://'' @ dn)\<rparr>)"
proof (cases "Deployment_save fault (x\<lparr>status := Live, deploymentUrl := Some (''https://'' @ dn)\<rparr>) d")
  case (Inl e)
  with assms show ?thesis by (simp add: simple_timer_def Let_def)
next
  case (Inr d2)
  from save_stored[OF Inr] assms Inr show ?thesis
    by (auto simp: simple_timer_def Let_def)
qed

text \<open>
  C3. In every run that \<open>POST /api/deploy\<close> starts, in either server and whatever the
  database, the file system and the provider do, the stored status of the new
  deployment only moves forward: each status in the sequence of stored statuses (the
  one at the response, then the one after each step of the process) is equal to every
  earlier one or of a later rank. So \<open>deploying\<close> never goes back to \<open>building\<close>, and
  \<open>live\<close> and \<open>error\<close> are never left.
\<close>

theorem status_moves_forward:
  "sorted_wrt forward_opt
     (stored_status (fst (snd (post_deploy findFault insertFault newId now env d u req files))) newId
      # status_trace newId (snd (snd (post_deploy findFault insertFault newId now env d u req files))))
   \<and> sorted_wrt forward_opt
     (stored_status (fst (snd (post_deploy_simple insertFault timerFault newId now d u req))) newId
      # status_trace newId (snd (snd (post_deploy_simple insertFault timerFault newId now d u req))))"
proof
  let ?x = "new_Deployment newId now u req"
  show "sorted_wrt forward_opt
     (stored_status (fst (snd (post_deploy findFault insertFault newId now env d u req files))) newId
      # status_trace newId (snd (snd (post_deploy findFault insertFault newId now env d u req files))))"
  proof (cases "checkDomainAvailability findFault d (req_domain req)")
    case False
    then show ?thesis by (simp add: post_deploy_def status_trace_def)
  next
    case True
    show ?thesis
    proof (cases "Deployment_insert insertFault ?x d")
      case (Inl e)
      with True show ?thesis by (simp add: post_deploy_def status_trace_def)
    next
      case (Inr d')
      from insert_stored[OF Inr] have b: "stored_status d' (dep_id ?x) = Some Building"
        by (simp add: stored_status_doc)
      from processDeployment_forward[OF b, of env files] b True Inr show ?thesis
        by (simp add: post_deploy_def)
    qed
  qed
next
  let ?x = "new_Deployment newId now u req"
  show "sorted_wrt forward_opt
     (stored_status (fst (snd (post_deploy_simple insertFault timerFault newId now d u req))) newId
      # status_trace newId (snd (snd (post_deploy_simple insertFault timerFault newId now d u req))))"
  proof (cases "Deployment_insert insertFault ?x d")
    case (Inl e)
    then show ?thesis by (simp add: post_deploy_simple_def status_trace_def)
  next
    case (Inr d')
    from insert_stored[OF Inr] have b: "stored_status d' newId = Some Building"
      by (simp add: stored_status_doc)
    obtain x' d2 where t: "simple_timer timerFault ?x (req_domain req) d' = (x', d2)"
      by (cases "simple_timer timerFault ?x (req_domain req) d'") auto
    from simple_timer_cases[OF t] b
    have "stored_status d2 newId = Some Building \<or> stored_status d2 newId = Some Live"
      by (auto simp: stored_status_doc)
    with Inr b t show ?thesis
      by (auto simp: post_deploy_simple_def status_trace_def forward_def)
  qed
qed

theorem status_moves_forward_witness:
  "stored_status (fst (snd (post_deploy False False 9 40 (demo_env two_polls) demo_db 1
                (demo_req ''demo.ntl.cloud'') []))) 9
      # status_trace 9 (snd (snd (post_deploy False False 9 40 (demo_env two_polls) demo_db 1
                (demo_req ''demo.ntl.cloud'') [])))
     = [Some Building, Some Deploying, Some Deploying, Some Deploying, Some Live]
   \<and> stored_status (fst (snd (post_deploy_simple False False 9 40 demo_db 1
                (demo_req ''demo.ntl.cloud'')))) 9
      # status_trace 9 (snd (snd (post_deploy_simple False False 9 40 demo_db 1
                (demo_req ''demo.ntl.cloud''))))
     = [Some Building, Some Live]
   \<and> sorted_wrt forward_opt
     (stored_status (fst (snd (post_deploy False False 9 40 (demo_env two_polls) demo_db 1
                (demo_req ''demo.ntl.cloud'') []))) 9
      # status_trace 9 (snd (snd (post_deploy False False 9 40 (demo_env two_polls) demo_db 1
                (demo_req ''demo.ntl.cloud'') []))))
   \<and> sorted_wrt forward_opt
     (stored_status (fst (snd (post_deploy_simple False False 9 40 demo_db 1
                (demo_req ''demo.ntl.cloud'')))) 9
      # status_trace 9 (snd (snd (post_deploy_simple False False 9 40 demo_db 1
                (demo_req ''demo.ntl.cloud'')))))"
proof -
  have a: "stored_status (fst (snd (post_deploy False False 9 40 (demo_env two_polls) demo_db 1
                (demo_req ''demo.ntl.cloud'') []))) 9
      # status_trace 9 (snd (snd (post_deploy False False 9 40 (demo_env two_polls) demo_db 1
                (demo_req ''demo.ntl.cloud'') [])))
     = [Some Building, Some Deploying, Some Deploying, Some Deploying, Some Live]"
    by code_simp
  have b: "stored_status (fst (snd (post_deploy_simple False False 9 40 demo_db 1
                (demo_req ''demo.ntl.cloud'')))) 9
      # status_trace 9 (snd (snd (post_deploy_simple False False 9 40 demo_db 1
                (demo_req ''demo.ntl.cloud''))))
     = [Some Building, Some Live]"
    by code_simp
  from status_moves_forward[of False False 9 40 "demo_env two_polls" demo_db 1
         "demo_req ''demo.ntl.cloud''" "[]" False]
  show ?thesis using a b by blast
qed

lemma insert_then_save:
  assumes "Deployment_insert fault x d = Inr d'" and "dep_id y = dep_id x" and "domain y = domain x"
  shows "\<exists>d''. Deployment_save False y d' = Inr d''"
proof -
  from assms(1) have fresh: "\<forall>z \<in> set (deployments d). dep_id z \<noteq> dep_id x \<and> domain z \<noteq> domain x"
    and d': "deployments d' = deployments d @ [x]"
    by (auto simp: Deployment_insert_def split: if_splits)
  from d' assms(2) have "\<not> (\<forall>z \<in> set (deployments d'). dep_id z \<noteq> dep_id y)"
    by auto
  moreover from d' fresh assms(2,3)
  have "\<not> (\<exists>z \<in> set (deployments d'). dep_id z \<noteq> dep_id y \<and> domain z = domain y)"
    by auto
  ultimately show ?thesis
    by (simp add: Deployment_save_def)
qed

lemma save_then_save:
  assumes "Deployment_save fault x d = Inr d'" and "dep_id y = dep_id x" and "domain y = domain x"
  shows "\<exists>d''. Deployment_save False y d' = Inr d''"
proof -
  from assms(1) have ex: "\<exists>z \<in> set (deployments d). dep_id z = dep_id x"
    and other: "\<forall>z \<in> set (deployments d). dep_id z \<noteq> dep_id x \<longrightarrow> domain z \<noteq> domain x"
    and d': "deployments d' = map (\<lambda>z. if dep_id z = dep_id x then x else z) (deployments d)"
    by (auto simp: Deployment_save_def split: if_splits)
  from ex d' assms(2) have "\<not> (\<forall>z \<in> set (deployments d'). dep_id z \<noteq> dep_id y)"
    by auto
  moreover from d' other assms(2,3)
  have "\<not> (\<exists>z \<in> set (deployments d'). dep_id z \<noteq> dep_id y \<and> domain z = domain y)"
    by auto
  ultimately show ?thesis
    by (simp add: Deployment_save_def)
qed

text \<open>Every state of the timer loop: the store is untouched, or the last save wrote a terminal status.\<close>

lemma checkStatus_states:
  assumes "st \<in> set (checkStatus env a x d)"
  shows "snd st = d \<or>
         (stored_doc (snd st) (dep_id x) = Some (fst st)
          \<and> (status (fst st) = Error
              \<or> (\<exists>n srv. reply (env n) = Some srv
                    \<and> (svc_status srv = ''live'' \<or> svc_status srv = ''ready'')
                    \<and> status (fst st) = Live \<and> deploymentUrl (fst st) = Some (svc_url srv))))"
  using assms
proof (induction env a x d rule: checkStatus.induct)
  case (1 env attempts x d)
  obtain again x' d' where r: "checkStatus_body (env attempts) attempts x d = (again, x', d')"
    by (cases "checkStatus_body (env attempts) attempts x d") auto
  note c = checkStatus_body_cases[OF r]
  from "1.prems" r have "st = (x', d') \<or> (again \<and> st \<in> set (checkStatus env (Suc attempts) x' d'))"
    by (subst (asm) checkStatus.simps) (auto simp: Let_def split: if_splits)
  then show ?case
  proof
    assume "st = (x', d')"
    with c show ?thesis by auto
  next
    assume a: "again \<and> st \<in> set (checkStatus env (Suc attempts) x' d')"
    with c have d': "d' = d" and id: "dep_id x' = dep_id x" by auto
    from "1.IH"[of "(again, x', d')"] r a
    have "snd st = d' \<or>
         (stored_doc (snd st) (dep_id x') = Some (fst st)
          \<and> (status (fst st) = Error
              \<or> (\<exists>n srv. reply (env n) = Some srv
                    \<and> (svc_status srv = ''live'' \<or> svc_status srv = ''ready'')
                    \<and> status (fst st) = Live \<and> deploymentUrl (fst st) = Some (svc_url srv))))"
      by simp
    with d' id show ?thesis by simp
  qed
qed

lemma process_catch_not_live:
  assumes "stored_status d (dep_id x) \<noteq> Some Live"
  shows "stored_status (snd (process_catch fault x d)) (dep_id x) \<noteq> Some Live"
proof -
  obtain x' d' where pc: "process_catch fault x d = (x', d')"
    by (cases "process_catch fault x d") auto
  from process_catch_cases[OF pc] assms pc show ?thesis by auto
qed

lemma processDeployment_live:
  assumes b: "stored_status d (dep_id x) = Some Building"
    and st: "st \<in> set (processDeployment env x files d)"
    and live: "stored_status (snd st) (dep_id x) = Some Live"
  shows "\<exists>n srv. reply (polls env n) = Some srv
            \<and> (svc_status srv = ''live'' \<or> svc_status srv = ''ready'')
            \<and> map_option deploymentUrl (stored_doc (snd st) (dep_id x)) = Some (Some (svc_url srv))"
proof (cases "Deployment_save (save1Fault env) (x\<lparr>status := Deploying\<rparr>) d")
  case (Inl e)
  with st have "st = process_catch (catchSaveFault env) (x\<lparr>status := Deploying\<rparr>) d"
    by (simp add: processDeployment_def Let_def)
  with process_catch_not_live[of d "x\<lparr>status := Deploying\<rparr>" "catchSaveFault env"] b live
  show ?thesis by simp
next
  case (Inr d1)
  let ?x1 = "x\<lparr>status := Deploying\<rparr>"
  from save_stored[OF Inr] have s1: "stored_status d1 (dep_id x) = Some Deploying"
    by (simp add: stored_status_doc)
  have n1: "stored_status (snd (process_catch (catchSaveFault env) y d1)) (dep_id x) \<noteq> Some Live"
    if "dep_id y = dep_id x" for y
    using process_catch_not_live[of d1 y "catchSaveFault env"] s1 that by simp
  show ?thesis
  proof (cases "files \<noteq> [] \<or> createReply env = None")
    case True
    with st Inr have "st = (?x1, d1) \<or> st = process_catch (catchSaveFault env) ?x1 d1"
      by (auto simp: processDeployment_def Let_def split: if_splits)
    with s1 n1[of ?x1] live show ?thesis by auto
  next
    case False
    then obtain srv0 where cr: "createReply env = Some srv0" by auto
    let ?x2 = "?x1\<lparr>renderServiceId := Some (svc_id srv0), deploymentUrl := Some (svc_url srv0)\<rparr>"
    show ?thesis
    proof (cases "Deployment_save (save2Fault env) ?x2 d1")
      case (Inl e)
      with st Inr False cr have "st = (?x1, d1) \<or> st = process_catch (catchSaveFault env) ?x2 d1"
        by (auto simp: processDeployment_def Let_def split: if_splits)
      with s1 n1[of ?x2] live show ?thesis by auto
    next
      case save2: (Inr d2)
      from save_stored[OF save2] have s2: "stored_status d2 (dep_id x) = Some Deploying"
        by (simp add: stored_status_doc)
      have n2: "stored_status (snd (process_catch (catchSaveFault env) ?x2 d2)) (dep_id x) \<noteq> Some Live"
        using process_catch_not_live[of d2 ?x2 "catchSaveFault env"] s2 by simp
      from st Inr False cr save2
      have "st = (?x1, d1) \<or> st = (?x2, d2) \<or> st = process_catch (catchSaveFault env) ?x2 d2
            \<or> st \<in> set (checkStatus (polls env) 0 ?x2 d2)"
        by (auto simp: processDeployment_def monitorDeployment_def Let_def split: if_splits)
      with s1 s2 n2 live have m: "st \<in> set (checkStatus (polls env) 0 ?x2 d2)" by auto
      from checkStatus_states[OF m] s2 live show ?thesis
        by (auto simp: stored_status_doc)
    qed
  qed
qed

lemma process_catch_saves:
  assumes "Deployment_save fault x d0 = Inr d"
  shows "stored_status (snd (process_catch False x d)) (dep_id x) = Some Error"
proof -
  from save_then_save[OF assms, of "x\<lparr>status := Error\<rparr>"]
  obtain d2 where s: "Deployment_save False (x\<lparr>status := Error\<rparr>) d = Inr d2" by auto
  from save_stored[OF s] s show ?thesis
    by (simp add: process_catch_def Let_def stored_status_doc)
qed

lemma processDeployment_stored:
  assumes b: "stored_status d (dep_id x) = Some Building"
    and st: "st \<in> set (processDeployment env x files d)"
  shows "stored_doc (snd st) (dep_id x) \<noteq> None"
proof -
  from processDeployment_forward[OF b, of env files]
  have "\<forall>y \<in> set (status_trace (dep_id x) (processDeployment env x files d)).
          forward_opt (Some Building) y"
    by simp
  with st have "forward_opt (Some Building) (stored_status (snd st) (dep_id x))"
    by (simp add: status_trace_def)
  then have "stored_status (snd st) (dep_id x) \<noteq> None"
    by (cases "stored_status (snd st) (dep_id x)") auto
  then show ?thesis by (simp add: stored_status_doc)
qed

lemma processDeployment_fails:
  assumes ins: "Deployment_insert fault x d0 = Inr d"
    and fail: "files \<noteq> [] \<or> createReply env = None
               \<or> (domain x \<noteq> [] \<and> \<not> sublist ''ntl.cloud'' (domain x)
                    \<and> domainFault env \<and> \<not> save2Fault env)"
    and ok: "\<not> save1Fault env" "\<not> catchSaveFault env"
  shows "stored_status (snd (last (processDeployment env x files d))) (dep_id x) = Some Error"
proof -
  let ?x1 = "x\<lparr>status := Deploying\<rparr>"
  from insert_then_save[OF ins, of ?x1]
  obtain d1 where s1: "Deployment_save False ?x1 d = Inr d1" by auto
  show ?thesis
  proof (cases "files \<noteq> [] \<or> createReply env = None")
    case True
    with s1 ok have "last (processDeployment env x files d) = process_catch False ?x1 d1"
      by (auto simp: processDeployment_def Let_def)
    with process_catch_saves[OF s1] show ?thesis by simp
  next
    case False
    then obtain srv where cr: "createReply env = Some srv" and nf: "files = []" by auto
    let ?x2 = "?x1\<lparr>renderServiceId := Some (svc_id srv), deploymentUrl := Some (svc_url srv)\<rparr>"
    from False fail have dm: "domain x \<noteq> []" "\<not> sublist ''ntl.cloud'' (domain x)"
      "domainFault env" "\<not> save2Fault env"
      by auto
    from save_then_save[OF s1, of ?x2]
    obtain d2 where s2: "Deployment_save False ?x2 d1 = Inr d2" by auto
    from s1 s2 ok cr nf dm
    have "last (processDeployment env x files d) = process_catch False ?x2 d2"
      by (simp add: processDeployment_def Let_def)
    with process_catch_saves[OF s2] show ?thesis by simp
  qed
qed

text \<open>
  C4, as amended. With the domain available: when the \<open>save()\<close> that creates the record
  throws, the caller gets 500 \<open>Deployment failed\<close> and nothing is stored. Once the record
  is stored, the caller gets 200 \<open>Deployment started\<close> whatever happens afterwards:
  \<open>processDeployment\<close> is not awaited, and an exception of the packaging or of a call to
  the provider (\<open>createStaticSite\<close>, \<open>addCustomDomain\<close>) is caught there, not at the
  request. The record is in the store in every later state (nothing rolls it back), and
  when the packaging or one of the two calls throws while the saves succeed, its status
  ends as \<open>error\<close>.
\<close>

theorem deploy_failures:
  assumes "checkDomainAvailability findFault d (req_domain req)"
  shows "(Deployment_insert insertFault (new_Deployment newId now u req) d = Inl e \<longrightarrow>
            post_deploy findFault insertFault newId now env d u req files
              = (respond 500 (ErrorBody ''Deployment failed''), d, []))
       \<and> (Deployment_insert insertFault (new_Deployment newId now u req) d = Inr d' \<longrightarrow>
            fst (post_deploy findFault insertFault newId now env d u req files)
              = respond 200 (DeployBody ''Deployment started'' newId (req_domain req)
                               ''15-30 seconds'')
            \<and> fst (snd (post_deploy findFault insertFault newId now env d u req files)) = d'
            \<and> (\<forall>st \<in> set (snd (snd (post_deploy findFault insertFault newId now env d u req files))).
                  stored_doc (snd st) newId \<noteq> None)
            \<and> ((files \<noteq> [] \<or> createReply env = None
                  \<or> (req_domain req \<noteq> [] \<and> \<not> sublist ''ntl.cloud'' (req_domain req)
                       \<and> domainFault env \<and> \<not> save2Fault env))
                  \<and> \<not> save1Fault env \<and> \<not> catchSaveFault env \<longrightarrow>
                stored_status (snd (last (snd (snd
                    (post_deploy findFault insertFault newId now env d u req files))))) newId
                  = Some Error))"
proof (intro conjI impI)
  let ?x = "new_Deployment newId now u req"
  {
    assume "Deployment_insert insertFault ?x d = Inl e"
    with assms show "post_deploy findFault insertFault newId now env d u req files
              = (respond 500 (ErrorBody ''Deployment failed''), d, [])"
      by (simp add: post_deploy_def)
  }
  assume ins: "Deployment_insert insertFault ?x d = Inr d'"
  from ins assms
  have R: "post_deploy findFault insertFault newId now env d u req files
             = (respond 200 (DeployBody ''Deployment started'' newId (req_domain req)
                               ''15-30 seconds''), d', processDeployment env ?x files d')"
    by (simp add: post_deploy_def)
  from R show "fst (post_deploy findFault insertFault newId now env d u req files)
              = respond 200 (DeployBody ''Deployment started'' newId (req_domain req)
                               ''15-30 seconds'')"
    by simp
  from R show "fst (snd (post_deploy findFault insertFault newId now env d u req files)) = d'"
    by simp
  from insert_stored[OF ins] have b: "stored_status d' (dep_id ?x) = Some Building"
    by (simp add: stored_status_doc)
  from processDeployment_stored[OF b, of _ env files] R
  show "\<forall>st \<in> set (snd (snd (post_deploy findFault insertFault newId now env d u req files))).
                  stored_doc (snd st) newId \<noteq> None"
    by simp
  {
    assume "(files \<noteq> [] \<or> createReply env = None
                  \<or> (req_domain req \<noteq> [] \<and> \<not> sublist ''ntl.cloud'' (req_domain req)
                       \<and> domainFault env \<and> \<not> save2Fault env))
                  \<and> \<not> save1Fault env \<and> \<not> catchSaveFault env"
    with processDeployment_fails[OF ins, of files env] R
    show "stored_status (snd (last (snd (snd
                    (post_deploy findFault insertFault newId now env d u req files))))) newId
                  = Some Error"
      by simp
  }
qed

text \<open>
  Three requests without a file: the creating \<open>save()\<close> throws; \<open>createStaticSite\<close>
  throws; \<open>addCustomDomain\<close> throws for the domain \<open>www.example.org\<close>.
\<close>

theorem deploy_failures_witness:
  "post_deploy False True 9 40 create_fails_env demo_db 1 (demo_req ''demo.ntl.cloud'') []
     = (respond 500 (ErrorBody ''Deployment failed''), demo_db, [])
   \<and> fst (post_deploy False False 9 40 create_fails_env demo_db 1 (demo_req ''demo.ntl.cloud'') [])
     = respond 200 (DeployBody ''Deployment started'' 9 ''demo.ntl.cloud'' ''15-30 seconds'')
   \<and> stored_doc (snd (last (snd (snd (post_deploy False False 9 40 create_fails_env demo_db 1
         (demo_req ''demo.ntl.cloud'') []))))) 9 \<noteq> None
   \<and> stored_status (snd (last (snd (snd (post_deploy False False 9 40 create_fails_env demo_db 1
         (demo_req ''demo.ntl.cloud'') []))))) 9 = Some Error
   \<and> fst (post_deploy False False 9 40 domain_fails_env demo_db 1 (demo_req ''www.example.org'') [])
     = respond 200 (DeployBody ''Deployment started'' 9 ''www.example.org'' ''15-30 seconds'')
   \<and> stored_status (snd (last (snd (snd (post_deploy False False 9 40 domain_fails_env demo_db 1
         (demo_req ''www.example.org'') []))))) 9 = Some Error"
proof -
  let ?req = "demo_req ''demo.ntl.cloud''"
  let ?d' = "demo_db\<lparr>deployments := deployments demo_db
               @ [demo_dep 9 1 ''demo.ntl.cloud'' 40 Building]\<rparr>"
  let ?req2 = "demo_req ''www.example.org''"
  let ?d2 = "demo_db\<lparr>deployments := deployments demo_db
               @ [demo_dep 9 1 ''www.example.org'' 40 Building]\<rparr>"
  have av: "checkDomainAvailability False demo_db (req_domain ?req)"
    by code_simp
  have av2: "checkDomainAvailability False demo_db (req_domain ?req2)"
    by code_simp
  have bad: "Deployment_insert True (new_Deployment 9 40 1 ?req) demo_db = Inl DbError"
    by code_simp
  have good: "Deployment_insert False (new_Deployment 9 40 1 ?req) demo_db = Inr ?d'"
    by code_simp
  have good2: "Deployment_insert False (new_Deployment 9 40 1 ?req2) demo_db = Inr ?d2"
    by code_simp
  have dn: "req_domain ?req = ''demo.ntl.cloud''" "req_domain ?req2 = ''www.example.org''"
    by (simp_all add: demo_req_def)
  have env: "createReply create_fails_env = None \<and> \<not> save1Fault create_fails_env
               \<and> \<not> catchSaveFault create_fails_env"
    by (simp add: create_fails_env_def demo_env_def)
  have env2: "domainFault domain_fails_env \<and> \<not> save2Fault domain_fails_env
                \<and> \<not> save1Fault domain_fails_env \<and> \<not> catchSaveFault domain_fails_env"
    by (simp add: domain_fails_env_def demo_env_def)
  have custom: "''www.example.org'' \<noteq> [] \<and> \<not> sublist ''ntl.cloud'' ''www.example.org''"
    by code_simp
  have ne: "snd (snd (post_deploy False False 9 40 create_fails_env demo_db 1 ?req [])) \<noteq> []"
    by code_simp
  from deploy_failures[OF av, where insertFault = True and newId = 9 and now = 40 and u = 1
         and e = DbError and env = create_fails_env and files = "[]" and d' = ?d'] bad
  have 1: "post_deploy False True 9 40 create_fails_env demo_db 1 ?req []
     = (respond 500 (ErrorBody ''Deployment failed''), demo_db, [])"
    by blast
  from deploy_failures[OF av, where insertFault = False and newId = 9 and now = 40 and u = 1
         and e = DbError and env = create_fails_env and files = "[]" and d' = ?d'] good
    env last_in_set[OF ne] dn
  have 2: "fst (post_deploy False False 9 40 create_fails_env demo_db 1 ?req [])
     = respond 200 (DeployBody ''Deployment started'' 9 ''demo.ntl.cloud'' ''15-30 seconds'')
   \<and> stored_doc (snd (last (snd (snd (post_deploy False False 9 40 create_fails_env demo_db 1
         ?req []))))) 9 \<noteq> None
   \<and> stored_status (snd (last (snd (snd (post_deploy False False 9 40 create_fails_env demo_db 1
         ?req []))))) 9 = Some Error"
    by auto
  from deploy_failures[OF av2, where insertFault = False and newId = 9 and now = 40 and u = 1
         and e = DbError and env = domain_fails_env and files = "[]" and d' = ?d2] good2
    env2 custom dn
  have 3: "fst (post_deploy False False 9 40 domain_fails_env demo_db 1 ?req2 [])
     = respond 200 (DeployBody ''Deployment started'' 9 ''www.example.org'' ''15-30 seconds'')
   \<and> stored_status (snd (last (snd (snd (post_deploy False False 9 40 domain_fails_env demo_db 1
         ?req2 []))))) 9 = Some Error"
    by auto
  from 1 2 3 show ?thesis by blast
qed

text \<open>
  C4 as stated fails when the call to the provider throws: a request without a file, for
  a free domain, whose \<open>createStaticSite\<close> throws, is answered 200, not a server error
  (and the record stays, with status \<open>error\<close>).
\<close>

theorem provider_failure_counterexample:
  "createReply create_fails_env = None
   \<and> code (fst (post_deploy False False 9 40 create_fails_env demo_db 1
                (demo_req ''demo.ntl.cloud'') [])) = 200
   \<and> stored_status (snd (last (snd (snd (post_deploy False False 9 40 create_fails_env demo_db 1
                (demo_req ''demo.ntl.cloud'') []))))) 9 = Some Error"
  by code_simp

text \<open>
  The polling path that completes: the polls before the \<open>n\<close>-th report nothing terminal,
  the \<open>n\<close>-th is within the budget and reports \<open>live\<close> or \<open>ready\<close>, and its save succeeds.
\<close>

lemma checkStatus_nonempty: "checkStatus env a x d \<noteq> []"
  by (subst checkStatus.simps) (simp add: Let_def)

lemma checkStatus_reaches_live:
  assumes "\<forall>k < n. pending (env k)" and "n \<le> maxAttempts"
    and "reply (env n) = Some srv"
    and "svc_status srv = ''live'' \<or> svc_status srv = ''ready''"
    and "Deployment_save (saveFault (env n))
           (x\<lparr>status := Live, deploymentUrl := Some (svc_url srv)\<rparr>) d = Inr d'"
    and "a \<le> n"
  shows "last (checkStatus env a x d)
           = (x\<lparr>status := Live, deploymentUrl := Some (svc_url srv)\<rparr>, d')"
  using assms
proof (induction env a x d rule: checkStatus.induct)
  case (1 env attempts x d)
  show ?case
  proof (cases "attempts < n")
    case True
    with "1.prems" have b: "checkStatus_body (env attempts) attempts x d = (True, x, d)"
      by (simp add: checkStatus_body_pending)
    from "1.IH"[of "(True, x, d)"] b "1.prems" True
    have "last (checkStatus env (Suc attempts) x d)
            = (x\<lparr>status := Live, deploymentUrl := Some (svc_url srv)\<rparr>, d')"
      by simp
    with b checkStatus_nonempty[of env "Suc attempts" x d] show ?thesis
      by (subst checkStatus.simps) simp
  next
    case False
    with "1.prems" have eq: "attempts = n" by simp
    with "1.prems"(3,4,5) show ?thesis
      by (subst checkStatus.simps) (auto simp: checkStatus_body_def Let_def)
  qed
qed

lemma processDeployment_reaches_live:
  assumes ins: "Deployment_insert fault x d0 = Inr d"
    and nf: "files = []"
    and ok: "\<not> save1Fault env" "createReply env = Some srv0" "\<not> save2Fault env"
      "sublist ''ntl.cloud'' (domain x) \<or> \<not> domainFault env"
    and pend: "\<forall>k < n. pending (polls env k)" and n: "n \<le> maxAttempts"
    and rep: "reply (polls env n) = Some srv"
    and live: "svc_status srv = ''live'' \<or> svc_status srv = ''ready''"
    and sv: "\<not> saveFault (polls env n)"
  shows "stored_doc (snd (last (processDeployment env x files d))) (dep_id x)
           = Some (x\<lparr>status := Live, renderServiceId := Some (svc_id srv0),
                     deploymentUrl := Some (svc_url srv)\<rparr>)"
proof -
  let ?x1 = "x\<lparr>status := Deploying\<rparr>"
  let ?x2 = "?x1\<lparr>renderServiceId := Some (svc_id srv0), deploymentUrl := Some (svc_url srv0)\<rparr>"
  let ?y = "?x2\<lparr>status := Live, deploymentUrl := Some (svc_url srv)\<rparr>"
  from insert_then_save[OF ins, of ?x1]
  obtain d1 where s1: "Deployment_save False ?x1 d = Inr d1" by auto
  from save_then_save[OF s1, of ?x2]
  obtain d2 where s2: "Deployment_save False ?x2 d1 = Inr d2" by auto
  from save_then_save[OF s2, of ?y]
  obtain d3 where s3: "Deployment_save False ?y d2 = Inr d3" by auto
  from s3 sv have s3': "Deployment_save (saveFault (polls env n)) ?y d2 = Inr d3" by simp
  from checkStatus_reaches_live[OF pend n rep live s3', of 0]
  have m: "last (checkStatus (polls env) 0 ?x2 d2) = (?y, d3)" by simp
  from s1 s2 ok nf have "processDeployment env x files d
      = (?x1, d1) # (?x2, d2) # checkStatus (polls env) 0 ?x2 d2"
    by (auto simp: processDeployment_def monitorDeployment_def Let_def)
  with m checkStatus_nonempty[of "polls env" 0 ?x2 d2]
  have "last (processDeployment env x files d) = (?y, d3)" by simp
  with save_stored[OF s3] show ?thesis by simp
qed

text \<open>
  C7, as amended. A deployment that is created is stored with status \<open>building\<close>. In
  the simplified server, when the timer's \<open>save()\<close> succeeds, the record reaches \<open>live\<close>
  with the URL \<open>https://\<close> followed by its domain. In the server with the provider, when
  the process runs without an exception and a poll within the budget reports \<open>live\<close> or
  \<open>ready\<close> (the polls before it reporting nothing terminal), the record reaches \<open>live\<close>
  with the URL that this poll reported; and whenever the stored status is \<open>live\<close>, the
  stored URL is one that a poll reported with \<open>live\<close> or \<open>ready\<close>. The domain plays no
  part in it.
\<close>

theorem created_building_then_live:
  "(code (fst (post_deploy_simple insertFault False newId now d u req)) = 200 \<longrightarrow>
      stored_status (fst (snd (post_deploy_simple insertFault False newId now d u req))) newId
        = Some Building
      \<and> stored_doc (snd (last (snd (snd (post_deploy_simple insertFault False newId now d u req)))))
          newId
        = Some ((new_Deployment newId now u req)
                  \<lparr>status := Live, deploymentUrl := Some (''https://'' @ req_domain req)\<rparr>))
   \<and> (code (fst (post_deploy findFault insertFault newId now env d u req files)) = 200 \<longrightarrow>
      stored_status (fst (snd (post_deploy findFault insertFault newId now env d u req files))) newId
        = Some Building
      \<and> (\<forall>st \<in> set (snd (snd (post_deploy findFault insertFault newId now env d u req files))).
            stored_status (snd st) newId = Some Live \<longrightarrow>
            (\<exists>n srv. reply (polls env n) = Some srv
               \<and> (svc_status srv = ''live'' \<or> svc_status srv = ''ready'')
               \<and> map_option deploymentUrl (stored_doc (snd st) newId) = Some (Some (svc_url srv)))))
   \<and> (code (fst (post_deploy findFault insertFault newId now env d u req files)) = 200
        \<and> files = [] \<and> \<not> save1Fault env \<and> createReply env \<noteq> None \<and> \<not> save2Fault env
        \<and> (sublist ''ntl.cloud'' (req_domain req) \<or> \<not> domainFault env)
        \<and> m \<le> maxAttempts \<and> (\<forall>k < m. pending (polls env k))
        \<and> reply (polls env m) = Some live_srv
        \<and> (svc_status live_srv = ''live'' \<or> svc_status live_srv = ''ready'')
        \<and> \<not> saveFault (polls env m) \<longrightarrow>
      stored_status (snd (last (snd (snd
          (post_deploy findFault insertFault newId now env d u req files))))) newId = Some Live
      \<and> map_option deploymentUrl (stored_doc (snd (last (snd (snd
          (post_deploy findFault insertFault newId now env d u req files))))) newId)
        = Some (Some (svc_url live_srv)))"
proof (intro conjI impI)
  let ?x = "new_Deployment newId now u req"
  let ?y = "?x\<lparr>status := Live, deploymentUrl := Some (''https://'' @ req_domain req)\<rparr>"
  assume ok: "code (fst (post_deploy_simple insertFault False newId now d u req)) = 200"
  then obtain d' where ins: "Deployment_insert insertFault ?x d = Inr d'"
    by (cases "Deployment_insert insertFault ?x d") (auto simp: post_deploy_simple_def respond_def)
  from insert_then_save[OF ins, of ?y] obtain d2 where sv: "Deployment_save False ?y d' = Inr d2"
    by auto
  from ins sv have R: "post_deploy_simple insertFault False newId now d u req
      = (respond 200 (DeployBody ''Deployment started'' newId (req_domain req) ''15-30 seconds''),
         d', [(?y, d2)])"
    by (simp add: post_deploy_simple_def simple_timer_def Let_def)
  from insert_stored[OF ins] R
  show "stored_status (fst (snd (post_deploy_simple insertFault False newId now d u req))) newId
        = Some Building"
    by (simp add: stored_status_doc)
  from save_stored[OF sv] R
  show "stored_doc (snd (last (snd (snd (post_deploy_simple insertFault False newId now d u req)))))
          newId = Some ?y"
    by simp
next
  let ?x = "new_Deployment newId now u req"
  assume ok: "code (fst (post_deploy findFault insertFault newId now env d u req files)) = 200"
  then have av: "checkDomainAvailability findFault d (req_domain req)"
    by (auto simp: post_deploy_def respond_def split: if_splits)
  with ok obtain d' where ins: "Deployment_insert insertFault ?x d = Inr d'"
    by (cases "Deployment_insert insertFault ?x d") (auto simp: post_deploy_def respond_def)
  from av ins have R: "post_deploy findFault insertFault newId now env d u req files
      = (respond 200 (DeployBody ''Deployment started'' newId (req_domain req) ''15-30 seconds''),
         d', processDeployment env ?x files d')"
    by (simp add: post_deploy_def)
  from insert_stored[OF ins] have b: "stored_status d' (dep_id ?x) = Some Building"
    by (simp add: stored_status_doc)
  with R show "stored_status (fst (snd (post_deploy findFault insertFault newId now env d u req files)))
                  newId = Some Building"
    by simp
  show "\<forall>st \<in> set (snd (snd (post_deploy findFault insertFault newId now env d u req files))).
            stored_status (snd st) newId = Some Live \<longrightarrow>
            (\<exists>n srv. reply (polls env n) = Some srv
               \<and> (svc_status srv = ''live'' \<or> svc_status srv = ''ready'')
               \<and> map_option deploymentUrl (stored_doc (snd st) newId) = Some (Some (svc_url srv)))"
  proof (intro ballI impI)
    fix st
    assume "st \<in> set (snd (snd (post_deploy findFault insertFault newId now env d u req files)))"
      and live: "stored_status (snd st) newId = Some Live"
    with R have "st \<in> set (processDeployment env ?x files d')" by simp
    from processDeployment_live[OF b this] live
    show "\<exists>n srv. reply (polls env n) = Some srv
               \<and> (svc_status srv = ''live'' \<or> svc_status srv = ''ready'')
               \<and> map_option deploymentUrl (stored_doc (snd st) newId) = Some (Some (svc_url srv))"
      by simp
  qed
next
  let ?x = "new_Deployment newId now u req"
  assume a: "code (fst (post_deploy findFault insertFault newId now env d u req files)) = 200
        \<and> files = [] \<and> \<not> save1Fault env \<and> createReply env \<noteq> None \<and> \<not> save2Fault env
        \<and> (sublist ''ntl.cloud'' (req_domain req) \<or> \<not> domainFault env)
        \<and> m \<le> maxAttempts \<and> (\<forall>k < m. pending (polls env k))
        \<and> reply (polls env m) = Some live_srv
        \<and> (svc_status live_srv = ''live'' \<or> svc_status live_srv = ''ready'')
        \<and> \<not> saveFault (polls env m)"
  then have av: "checkDomainAvailability findFault d (req_domain req)"
    by (auto simp: post_deploy_def respond_def split: if_splits)
  with a obtain d' where ins: "Deployment_insert insertFault ?x d = Inr d'"
    by (cases "Deployment_insert insertFault ?x d") (auto simp: post_deploy_def respond_def)
  from av ins have R: "snd (snd (post_deploy findFault insertFault newId now env d u req files))
      = processDeployment env ?x files d'"
    by (simp add: post_deploy_def)
  from a obtain srv0 where cr: "createReply env = Some srv0" by auto
  from a have dm: "sublist ''ntl.cloud'' (domain ?x) \<or> \<not> domainFault env" by simp
  from a have nf: "files = []" and s1: "\<not> save1Fault env" and s2: "\<not> save2Fault env"
    and pend: "\<forall>k < m. pending (polls env k)" and mb: "m \<le> maxAttempts"
    and rp: "reply (polls env m) = Some live_srv"
    and lv: "svc_status live_srv = ''live'' \<or> svc_status live_srv = ''ready''"
    and sv: "\<not> saveFault (polls env m)"
    by simp_all
  from processDeployment_reaches_live[OF ins nf s1 cr s2 dm pend mb rp lv sv] R
  have fin: "stored_doc (snd (last (snd (snd
          (post_deploy findFault insertFault newId now env d u req files))))) newId
        = Some (?x\<lparr>status := Live, renderServiceId := Some (svc_id srv0),
                    deploymentUrl := Some (svc_url live_srv)\<rparr>)"
    by simp
  then show "stored_status (snd (last (snd (snd
          (post_deploy findFault insertFault newId now env d u req files))))) newId = Some Live"
    by (simp add: stored_status_doc)
  from fin show "map_option deploymentUrl (stored_doc (snd (last (snd (snd
          (post_deploy findFault insertFault newId now env d u req files))))) newId)
        = Some (Some (svc_url live_srv))"
    by simp
qed

theorem created_building_then_live_witness:
  "stored_status (fst (snd (post_deploy_simple False False 9 40 demo_db 1
       (demo_req ''demo.ntl.cloud'')))) 9 = Some Building
   \<and> stored_doc (snd (last (snd (snd (post_deploy_simple False False 9 40 demo_db 1
       (demo_req ''demo.ntl.cloud'')))))) 9
     = Some ((new_Deployment 9 40 1 (demo_req ''demo.ntl.cloud''))
               \<lparr>status := Live, deploymentUrl := Some (''https://'' @ ''demo.ntl.cloud'')\<rparr>)
   \<and> stored_status (fst (snd (post_deploy False False 9 40 (demo_env two_polls) demo_db 1
       (demo_req ''demo.ntl.cloud'') []))) 9 = Some Building
   \<and> stored_status (snd (last (snd (snd (post_deploy False False 9 40 (demo_env two_polls)
       demo_db 1 (demo_req ''demo.ntl.cloud'') []))))) 9 = Some Live
   \<and> (\<exists>n srv. reply (two_polls n) = Some srv
         \<and> (svc_status srv = ''live'' \<or> svc_status srv = ''ready'')
         \<and> map_option deploymentUrl (stored_doc (snd (last (snd (snd (post_deploy False False 9 40
              (demo_env two_polls) demo_db 1 (demo_req ''demo.ntl.cloud'') []))))) 9)
           = Some (Some (svc_url srv)))
   \<and> map_option deploymentUrl (stored_doc (snd (last (snd (snd (post_deploy False False 9 40
        (demo_env two_polls) demo_db 1 (demo_req ''demo.ntl.cloud'') []))))) 9)
     = Some (Some (svc_url (demo_service ''live'')))"
proof -
  let ?req = "demo_req ''demo.ntl.cloud''"
  let ?T = "snd (snd (post_deploy False False 9 40 (demo_env two_polls) demo_db 1 ?req []))"
  have s: "code (fst (post_deploy_simple False False 9 40 demo_db 1 ?req)) = 200"
    by code_simp
  have f: "code (fst (post_deploy False False 9 40 (demo_env two_polls) demo_db 1 ?req [])) = 200"
    by code_simp
  have ne: "?T \<noteq> []"
    by code_simp
  have live: "stored_status (snd (last ?T)) 9 = Some Live"
    by code_simp
  have dn: "req_domain ?req = ''demo.ntl.cloud''"
    by (simp add: demo_req_def)
  have p: "polls (demo_env two_polls) = two_polls"
    by (simp add: demo_env_def)
  have e: "\<not> save1Fault (demo_env two_polls) \<and> createReply (demo_env two_polls) \<noteq> None
             \<and> \<not> save2Fault (demo_env two_polls)"
    by (simp add: demo_env_def)
  have nt: "sublist ''ntl.cloud'' ''demo.ntl.cloud''"
    by code_simp
  have q: "(1::nat) \<le> maxAttempts \<and> (\<forall>k < 1. pending (two_polls k))
             \<and> reply (two_polls 1) = Some (demo_service ''live'')
             \<and> svc_status (demo_service ''live'') = ''live''
             \<and> \<not> saveFault (two_polls 1)"
    by (simp add: maxAttempts_def two_polls_def pending_def demo_poll_def demo_service_def)
  note t = created_building_then_live[where insertFault = False and newId = 9 and now = 40
      and d = demo_db and u = 1 and req = ?req and findFault = False
      and env = "demo_env two_polls" and files = "[]" and m = 1
      and live_srv = "demo_service ''live''"]
  from t s f last_in_set[OF ne] live dn p
  have 1: "stored_status (fst (snd (post_deploy_simple False False 9 40 demo_db 1 ?req))) 9
             = Some Building
   \<and> stored_doc (snd (last (snd (snd (post_deploy_simple False False 9 40 demo_db 1 ?req))))) 9
     = Some ((new_Deployment 9 40 1 ?req)
               \<lparr>status := Live, deploymentUrl := Some (''https://'' @ ''demo.ntl.cloud'')\<rparr>)
   \<and> stored_status (fst (snd (post_deploy False False 9 40 (demo_env two_polls) demo_db 1
       ?req []))) 9 = Some Building
   \<and> (\<exists>n srv. reply (two_polls n) = Some srv
         \<and> (svc_status srv = ''live'' \<or> svc_status srv = ''ready'')
         \<and> map_option deploymentUrl (stored_doc (snd (last ?T)) 9) = Some (Some (svc_url srv)))"
    by auto
  from t f e nt q dn p
  have 2: "stored_status (snd (last ?T)) 9 = Some Live
    \<and> map_option deploymentUrl (stored_doc (snd (last ?T)) 9)
        = Some (Some (svc_url (demo_service ''live'')))"
    by simp
  from 1 2 show ?thesis by blast
qed

text \<open>
  C7 as stated fails on the server with the provider: the deployment with the domain
  \<open>demo.ntl.cloud\<close> goes live with the URL the provider gave.
\<close>

theorem provider_url_counterexample:
  "code (fst (post_deploy False False 9 40 (demo_env two_polls) demo_db 1
                (demo_req ''demo.ntl.cloud'') [])) = 200
   \<and> map_option status (stored_doc (snd (last (snd (snd (post_deploy False False 9 40
         (demo_env two_polls) demo_db 1 (demo_req ''demo.ntl.cloud'') []))))) 9) = Some Live
   \<and> map_option deploymentUrl (stored_doc (snd (last (snd (snd (post_deploy False False 9 40
         (demo_env two_polls) demo_db 1 (demo_req ''demo.ntl.cloud'') []))))) 9)
       = Some (Some ''https://demo-1.onrender.com'')
   \<and> ''https://demo-1.onrender.com'' \<noteq> ''https://'' @ ''demo.ntl.cloud''"
  by code_simp

text \<open>
  C8, as amended. A database call that throws in a route is answered with 500 and a
  generic message (\<open>Internal server error\<close>, or \<open>Deployment failed\<close> for
  \<open>POST /api/deploy\<close>), and the store is left as it was; with one exception: when the
  lookup of \<open>checkDomainAvailability\<close> throws, the function catches it and returns
  \<open>false\<close>, and \<open>POST /api/deploy\<close> answers 400 \<open>Domain not available\<close>.
\<close>

theorem database_errors:
  "get_deployments True d u = respond 500 (ErrorBody ''Internal server error'')
   \<and> get_deployment True d u rid = respond 500 (ErrorBody ''Internal server error'')
   \<and> get_analytics True d u rid ra rb rc rd = respond 500 (ErrorBody ''Internal server error'')
   \<and> delete_deployment True rmdirFault deleteFault d u rid
       = (respond 500 (ErrorBody ''Internal server error''), d)
   \<and> (castObjectId rid = Some i
        \<and> find (\<lambda>x. dep_id x = i \<and> userId x = u) (deployments d) \<noteq> None \<longrightarrow>
        delete_deployment False False True d u rid
          = (respond 500 (ErrorBody ''Internal server error''), d))
   \<and> login True bcrypt_compare jwt_sign d e p = respond 500 (ErrorBody ''Internal server error'')
   \<and> (e \<noteq> [] \<and> p \<noteq> [] \<longrightarrow>
        register True insFault newId h jwt_sign d e p
          = (respond 500 (ErrorBody ''Internal server error''), d))
   \<and> (e \<noteq> [] \<and> p \<noteq> [] \<and> find (\<lambda>x. email x = e) (users d) = None \<longrightarrow>
        register False True newId h jwt_sign d e p
          = (respond 500 (ErrorBody ''Internal server error''), d))
   \<and> post_deploy_simple True timerFault newId now d u req
       = (respond 500 (ErrorBody ''Deployment failed''), d, [])
   \<and> (checkDomainAvailability False d (req_domain req) \<longrightarrow>
        post_deploy False True newId now env d u req files
          = (respond 500 (ErrorBody ''Deployment failed''), d, []))
   \<and> post_deploy True insertFault newId now env d u req files
       = (respond 400 (ErrorBody ''Domain not available''), d, [])"
proof -
  have ins: "\<exists>ex. Deployment_insert True x d = Inl ex" for x
    by (simp add: Deployment_insert_def)
  have uins: "\<exists>ex. User_insert True x d = Inl ex" for x
    by (simp add: User_insert_def)
  have 1: "get_deployments True d u = respond 500 (ErrorBody ''Internal server error'')"
    by (simp add: get_deployments_def Deployment_find_recent_def)
  have 2: "get_deployment True d u rid = respond 500 (ErrorBody ''Internal server error'')"
    by (simp add: get_deployment_def Deployment_findOne_owned_def split: option.splits)
  have 3: "get_analytics True d u rid ra rb rc rd = respond 500 (ErrorBody ''Internal server error'')"
    by (simp add: get_analytics_def Deployment_findOne_owned_def split: option.splits)
  have 4: "delete_deployment True rmdirFault deleteFault d u rid
       = (respond 500 (ErrorBody ''Internal server error''), d)"
    by (simp add: delete_deployment_def Deployment_findOne_owned_def split: option.splits)
  have 5: "castObjectId rid = Some i
        \<and> find (\<lambda>x. dep_id x = i \<and> userId x = u) (deployments d) \<noteq> None \<longrightarrow>
        delete_deployment False False True d u rid
          = (respond 500 (ErrorBody ''Internal server error''), d)"
    by (auto simp: delete_deployment_def Deployment_findOne_owned_def)
  have 6: "login True bcrypt_compare jwt_sign d e p = respond 500 (ErrorBody ''Internal server error'')"
    by (simp add: login_def User_findOne_def)
  have 7: "e \<noteq> [] \<and> p \<noteq> [] \<longrightarrow>
        register True insFault newId h jwt_sign d e p
          = (respond 500 (ErrorBody ''Internal server error''), d)"
    by (simp add: register_def User_findOne_def)
  have 8: "e \<noteq> [] \<and> p \<noteq> [] \<and> find (\<lambda>x. email x = e) (users d) = None \<longrightarrow>
        register False True newId h jwt_sign d e p
          = (respond 500 (ErrorBody ''Internal server error''), d)"
    using uins[of "\<lparr>user_id = newId, email = e, password = h, plan = ''free''\<rparr>"]
    by (auto simp: register_def User_findOne_def Let_def)
  have 9: "post_deploy_simple True timerFault newId now d u req
       = (respond 500 (ErrorBody ''Deployment failed''), d, [])"
    using ins[of "new_Deployment newId now u req"]
    by (auto simp: post_deploy_simple_def Let_def)
  have 10: "checkDomainAvailability False d (req_domain req) \<longrightarrow>
        post_deploy False True newId now env d u req files
          = (respond 500 (ErrorBody ''Deployment failed''), d, [])"
    using ins[of "new_Deployment newId now u req"]
    by (auto simp: post_deploy_def Let_def)
  have 11: "post_deploy True insertFault newId now env d u req files
       = (respond 400 (ErrorBody ''Domain not available''), d, [])"
    by (simp add: post_deploy_def checkDomainAvailability_def Deployment_findOne_domain_def)
  from 1 2 3 4 5 6 7 8 9 10 11 show ?thesis by blast
qed

theorem database_errors_witness:
  "get_deployments True demo_db 1 = respond 500 (ErrorBody ''Internal server error'')
   \<and> delete_deployment False False True demo_db 1 rid_three
       = (respond 500 (ErrorBody ''Internal server error''), demo_db)
   \<and> register False True 5 ''s1::pw'' demo_sign demo_db ''b@x.org'' ''pw''
       = (respond 500 (ErrorBody ''Internal server error''), demo_db)
   \<and> post_deploy False True 5 40 (demo_env two_polls) demo_db 1 (demo_req ''demo.ntl.cloud'') []
       = (respond 500 (ErrorBody ''Deployment failed''), demo_db, [])
   \<and> post_deploy True False 5 40 (demo_env two_polls) demo_db 1 (demo_req ''demo.ntl.cloud'') []
       = (respond 400 (ErrorBody ''Domain not available''), demo_db, [])"
proof -
  have a: "castObjectId rid_three = Some 3
             \<and> find (\<lambda>x. dep_id x = 3 \<and> userId x = 1) (deployments demo_db) \<noteq> None"
    by code_simp
  have b: "''b@x.org'' \<noteq> [] \<and> ''pw'' \<noteq> [] \<and> find (\<lambda>x. email x = ''b@x.org'') (users demo_db) = None"
    by (simp add: demo_db_def demo_user_def)
  have c: "checkDomainAvailability False demo_db (req_domain (demo_req ''demo.ntl.cloud''))"
    by code_simp
  from database_errors[where d = demo_db and u = 1 and rid = rid_three and i = 3
         and e = "''b@x.org''"
         and p = "''pw''" and newId = 5 and h = "''s1::pw''" and jwt_sign = demo_sign
         and req = "demo_req ''demo.ntl.cloud''" and env = "demo_env two_polls"
         and files = "[]" and insertFault = False and now = 40 and ra = 0 and rb = 0
         and rc = 0 and rd = 0 and rmdirFault = False and deleteFault = True
         and bcrypt_compare = demo_compare and insFault = True and timerFault = False] a b c
  show ?thesis by blast
qed

text \<open>
  C8 as stated fails at the availability check: no stored deployment has the domain, the
  lookup throws, and the answer is 400.
\<close>

theorem availability_check_counterexample:
  "find (\<lambda>x. domain x = ''demo.ntl.cloud'') (deployments demo_db) = None
   \<and> Deployment_findOne_domain True demo_db ''demo.ntl.cloud'' = Inl DbError
   \<and> fst (post_deploy True False 9 40 (demo_env two_polls) demo_db 1
            (demo_req ''demo.ntl.cloud'') [])
       = respond 400 (ErrorBody ''Domain not available'')"
  by code_simp

lemma find_strip_hash:
  assumes "map strip_hash xs = map strip_hash ys"
  shows "map_option strip_hash (find (\<lambda>x. email x = e) xs)
           = map_option strip_hash (find (\<lambda>x. email x = e) ys)"
  using assms
proof (induction xs arbitrary: ys)
  case Nil
  then show ?case by simp
next
  case (Cons x xs)
  then obtain y ys' where ys: "ys = y # ys'" and xy: "strip_hash x = strip_hash y"
    and rest: "map strip_hash xs = map strip_hash ys'"
    by (cases ys) auto
  from xy have "email x = email y"
    by (metis strip_hash_def user.select_convs(2) user.surjective user.update_convs(3))
  with Cons.IH[OF rest] ys xy show ?case by simp
qed

lemma strip_hash_fields:
  assumes "strip_hash x = strip_hash y"
  shows "user_id x = user_id y \<and> email x = email y \<and> plan x = plan y"
proof -
  have "user_id (strip_hash x) = user_id x" "email (strip_hash x) = email x"
    "plan (strip_hash x) = plan x" "user_id (strip_hash y) = user_id y"
    "email (strip_hash y) = email y" "plan (strip_hash y) = plan y"
    by (simp_all add: strip_hash_def)
  with assms show ?thesis by metis
qed

text \<open>
  C10. A successful login answers with the token and the id, email and plan of the user
  found, and a successful registration with the token and the new id, the email of the
  request and the plan \<open>free\<close>; no hash is in either. Two successful logins with the same
  email, on stores that differ only in the stored hashes, get the same response. Every
  other response of the two routes is one of their fixed error messages.
\<close>

theorem auth_response_hides_hash:
  "(code (login findFault bcrypt_compare jwt_sign d e p) = 200
      \<and> code (login findFault' bcrypt_compare' jwt_sign d' e p') = 200
      \<and> map strip_hash (users d) = map strip_hash (users d') \<longrightarrow>
    login findFault bcrypt_compare jwt_sign d e p
      = login findFault' bcrypt_compare' jwt_sign d' e p')
   \<and> (code (login findFault bcrypt_compare jwt_sign d e p) = 200 \<longrightarrow>
       (\<exists>usr \<in> set (users d). email usr = e \<and> bcrypt_compare p (password usr)
          \<and> login findFault bcrypt_compare jwt_sign d e p
              = respond 200 (AuthBody ''Login successful'' (jwt_sign (user_id usr))
                  \<lparr>view_id = user_id usr, view_email = email usr, view_plan = plan usr\<rparr>)))
   \<and> (code (fst (register findFault insFault newId hashedPassword jwt_sign d e p)) = 201 \<longrightarrow>
       fst (register findFault insFault newId hashedPassword jwt_sign d e p)
         = respond 201 (AuthBody ''User created successfully'' (jwt_sign newId)
             \<lparr>view_id = newId, view_email = e, view_plan = ''free''\<rparr>))
   \<and> (code (login findFault bcrypt_compare jwt_sign d e p) \<noteq> 200 \<longrightarrow>
       login findFault bcrypt_compare jwt_sign d e p
         = respond 401 (ErrorBody ''Invalid credentials'')
       \<or> login findFault bcrypt_compare jwt_sign d e p
         = respond 500 (ErrorBody ''Internal server error''))
   \<and> (code (fst (register findFault insFault newId hashedPassword jwt_sign d e p)) \<noteq> 201 \<longrightarrow>
       fst (register findFault insFault newId hashedPassword jwt_sign d e p)
         = respond 400 (ErrorBody ''Email and password required'')
       \<or> fst (register findFault insFault newId hashedPassword jwt_sign d e p)
         = respond 400 (ErrorBody ''User already exists'')
       \<or> fst (register findFault insFault newId hashedPassword jwt_sign d e p)
         = respond 500 (ErrorBody ''Internal server error''))"
proof (intro conjI impI)
  have ok: "\<exists>usr. find (\<lambda>x. email x = e) (users d) = Some usr \<and> bcrypt_compare p (password usr)
          \<and> login findFault bcrypt_compare jwt_sign d e p
              = respond 200 (AuthBody ''Login successful'' (jwt_sign (user_id usr))
                  \<lparr>view_id = user_id usr, view_email = email usr, view_plan = plan usr\<rparr>)"
    if "code (login findFault bcrypt_compare jwt_sign d e p) = 200"
    for findFault bcrypt_compare d p
    using that
    by (auto simp: login_def User_findOne_def respond_def split: if_splits option.splits)
  {
    assume a: "code (login findFault bcrypt_compare jwt_sign d e p) = 200
      \<and> code (login findFault' bcrypt_compare' jwt_sign d' e p') = 200
      \<and> map strip_hash (users d) = map strip_hash (users d')"
    from ok[of findFault bcrypt_compare d p] a obtain usr where
      u: "find (\<lambda>x. email x = e) (users d) = Some usr"
      and l: "login findFault bcrypt_compare jwt_sign d e p
              = respond 200 (AuthBody ''Login successful'' (jwt_sign (user_id usr))
                  \<lparr>view_id = user_id usr, view_email = email usr, view_plan = plan usr\<rparr>)"
      by auto
    from ok[of findFault' bcrypt_compare' d' p'] a obtain usr' where
      u': "find (\<lambda>x. email x = e) (users d') = Some usr'"
      and l': "login findFault' bcrypt_compare' jwt_sign d' e p'
              = respond 200 (AuthBody ''Login successful'' (jwt_sign (user_id usr'))
                  \<lparr>view_id = user_id usr', view_email = email usr', view_plan = plan usr'\<rparr>)"
      by auto
    from find_strip_hash[of "users d" "users d'" e] a u u'
    have "strip_hash usr = strip_hash usr'" by simp
    from strip_hash_fields[OF this] l l'
    show "login findFault bcrypt_compare jwt_sign d e p
      = login findFault' bcrypt_compare' jwt_sign d' e p'"
      by simp
  }
  {
    assume "code (login findFault bcrypt_compare jwt_sign d e p) = 200"
    from ok[OF this] obtain usr where
      u: "find (\<lambda>x. email x = e) (users d) = Some usr" and c: "bcrypt_compare p (password usr)"
      and l: "login findFault bcrypt_compare jwt_sign d e p
              = respond 200 (AuthBody ''Login successful'' (jwt_sign (user_id usr))
                  \<lparr>view_id = user_id usr, view_email = email usr, view_plan = plan usr\<rparr>)"
      by auto
    from u have "usr \<in> set (users d) \<and> email usr = e"
      by (auto simp: find_Some_iff in_set_conv_nth)
    with c l show "\<exists>usr \<in> set (users d). email usr = e \<and> bcrypt_compare p (password usr)
          \<and> login findFault bcrypt_compare jwt_sign d e p
              = respond 200 (AuthBody ''Login successful'' (jwt_sign (user_id usr))
                  \<lparr>view_id = user_id usr, view_email = email usr, view_plan = plan usr\<rparr>)"
      by auto
  }
  {
    assume "code (fst (register findFault insFault newId hashedPassword jwt_sign d e p)) = 201"
    then show "fst (register findFault insFault newId hashedPassword jwt_sign d e p)
         = respond 201 (AuthBody ''User created successfully'' (jwt_sign newId)
             \<lparr>view_id = newId, view_email = e, view_plan = ''free''\<rparr>)"
      by (auto simp: register_def respond_def Let_def split: if_splits sum.splits option.splits)
  }
  {
    assume "code (login findFault bcrypt_compare jwt_sign d e p) \<noteq> 200"
    then show "login findFault bcrypt_compare jwt_sign d e p
         = respond 401 (ErrorBody ''Invalid credentials'')
       \<or> login findFault bcrypt_compare jwt_sign d e p
         = respond 500 (ErrorBody ''Internal server error'')"
      by (auto simp: login_def respond_def User_findOne_def split: if_splits option.splits)
  }
  assume "code (fst (register findFault insFault newId hashedPassword jwt_sign d e p)) \<noteq> 201"
  then show "fst (register findFault insFault newId hashedPassword jwt_sign d e p)
         = respond 400 (ErrorBody ''Email and password required'')
       \<or> fst (register findFault insFault newId hashedPassword jwt_sign d e p)
         = respond 400 (ErrorBody ''User already exists'')
       \<or> fst (register findFault insFault newId hashedPassword jwt_sign d e p)
         = respond 500 (ErrorBody ''Internal server error'')"
    by (auto simp: register_def respond_def Let_def split: if_splits sum.splits option.splits)
qed

theorem auth_response_hides_hash_witness:
  "login False demo_compare demo_sign (users_db ''s1::pw'') ''a@x.org'' ''pw''
     = login False demo_compare demo_sign (users_db ''s2::pw'') ''a@x.org'' ''pw''
   \<and> login False demo_compare demo_sign (users_db ''s1::pw'') ''a@x.org'' ''pw''
     = respond 200 (AuthBody ''Login successful'' ''jwt-i''
         \<lparr>view_id = 1, view_email = ''a@x.org'', view_plan = ''free''\<rparr>)
   \<and> fst (register False False 2 ''s3::pw'' demo_sign (users_db ''s1::pw'') ''b@x.org'' ''pw'')
     = respond 201 (AuthBody ''User created successfully'' (demo_sign 2)
         \<lparr>view_id = 2, view_email = ''b@x.org'', view_plan = ''free''\<rparr>)"
proof -
  have a: "code (login False demo_compare demo_sign (users_db ''s1::pw'') ''a@x.org'' ''pw'') = 200"
    by code_simp
  have b: "code (login False demo_compare demo_sign (users_db ''s2::pw'') ''a@x.org'' ''pw'') = 200"
    by code_simp
  have c: "map strip_hash (users (users_db ''s1::pw'')) = map strip_hash (users (users_db ''s2::pw''))"
    by (simp add: users_db_def demo_user_def strip_hash_def)
  have r: "code (fst (register False False 2 ''s3::pw'' demo_sign (users_db ''s1::pw'')
                   ''b@x.org'' ''pw'')) = 201"
    by code_simp
  have v: "login False demo_compare demo_sign (users_db ''s1::pw'') ''a@x.org'' ''pw''
     = respond 200 (AuthBody ''Login successful'' ''jwt-i''
         \<lparr>view_id = 1, view_email = ''a@x.org'', view_plan = ''free''\<rparr>)"
    by code_simp
  from auth_response_hides_hash[where findFault = False and bcrypt_compare = demo_compare
         and jwt_sign = demo_sign and d = "users_db ''s1::pw''" and e = "''a@x.org''"
         and p = "''pw''" and findFault' = False and bcrypt_compare' = demo_compare
         and d' = "users_db ''s2::pw''" and p' = "''pw''" and insFault = False
         and newId = 2 and hashedPassword = "''s3::pw''"] a b c
  have 1: "login False demo_compare demo_sign (users_db ''s1::pw'') ''a@x.org'' ''pw''
     = login False demo_compare demo_sign (users_db ''s2::pw'') ''a@x.org'' ''pw''"
    by blast
  from auth_response_hides_hash[where findFault = False and insFault = False and newId = 2
         and hashedPassword = "''s3::pw''" and jwt_sign = demo_sign
         and d = "users_db ''s1::pw''" and e = "''b@x.org''" and p = "''pw''"
         and findFault' = False and bcrypt_compare = demo_compare
         and bcrypt_compare' = demo_compare and d' = "users_db ''s2::pw''" and p' = "''pw''"] r
  have 2: "fst (register False False 2 ''s3::pw'' demo_sign (users_db ''s1::pw'') ''b@x.org'' ''pw'')
     = respond 201 (AuthBody ''User created successfully'' (demo_sign 2)
         \<lparr>view_id = 2, view_email = ''b@x.org'', view_plan = ''free''\<rparr>)"
    by blast
  from 1 2 v
  show ?thesis by blast
qed

end
